theory Spec2Isabelle
  imports Complex_Main
begin

section \<open>Bundle Dispatch Engine: data model\<close>

text \<open>
  The dispatch engine is the module that defines \<open>executeBuy\<close>. A bundle is the object
  \<open>{ transactions: string[] }\<close>. Bundles arrive from parsed JSON, and both
  \<open>splitLargeBundles\<close> and \<open>completeBundleSigning\<close> test
  \<open>!bundle.transactions || !Array.isArray(bundle.transactions)\<close>; the field is
  therefore optional in the model: \<open>None\<close> stands for a bundle object whose
  \<open>transactions\<close> property is missing or is not an array.
\<close>

record BuyBundle =
  transactions :: "string list option"

definition MAX_BUNDLES_PER_SECOND :: nat where
  "MAX_BUNDLES_PER_SECOND = 10"

definition MAX_TRANSACTIONS_PER_BUNDLE :: nat where
  "MAX_TRANSACTIONS_PER_BUNDLE = 5"

section \<open>Bundle splitter\<close>

text \<open>
  \<open>Array.prototype.slice(i, j)\<close> for \<open>0 \<le> i \<le> j\<close>: the elements at positions
  \<open>i, ..., j - 1\<close> that exist.
\<close>

definition slice :: "nat \<Rightarrow> nat \<Rightarrow> 'a list \<Rightarrow> 'a list" where
  "slice i j xs = take (j - i) (drop i xs)"

text \<open>
  The inner loop of \<open>splitLargeBundles\<close>:
  \<^verbatim>\<open>
  for (let i = 0; i < bundle.transactions.length; i += MAX_TRANSACTIONS_PER_BUNDLE) {
    const chunkTransactions = bundle.transactions.slice(i, i + MAX_TRANSACTIONS_PER_BUNDLE);
    result.push({ transactions: chunkTransactions });
  }
  \<close>
  with the loop counter and the result array as arguments.
\<close>

function chunk_loop :: "string list \<Rightarrow> nat \<Rightarrow> BuyBundle list \<Rightarrow> BuyBundle list" where
  "chunk_loop txs i result =
     (if i < length txs
      then chunk_loop txs (i + MAX_TRANSACTIONS_PER_BUNDLE)
             (result @ [\<lparr>transactions = Some (slice i (i + MAX_TRANSACTIONS_PER_BUNDLE) txs)\<rparr>])
      else result)"
  by pat_completeness auto
termination
  by (relation "measure (\<lambda>(txs, i, result). length txs - i)")
     (auto simp: MAX_TRANSACTIONS_PER_BUNDLE_def)

declare chunk_loop.simps [simp del]

text \<open>
  The outer loop of \<open>splitLargeBundles\<close>, one bundle per step, \<open>result\<close> being the
  array built so far: a bundle without a transactions array is skipped, a bundle within
  the limit is pushed as it is, a larger one is pushed in chunks.
\<close>

fun split_loop :: "BuyBundle list \<Rightarrow> BuyBundle list \<Rightarrow> BuyBundle list" where
  "split_loop [] result = result"
| "split_loop (bundle # bundles) result =
     (case transactions bundle of
        None \<Rightarrow> split_loop bundles result
      | Some txs \<Rightarrow>
          if length txs \<le> MAX_TRANSACTIONS_PER_BUNDLE
          then split_loop bundles (result @ [bundle])
          else split_loop bundles (chunk_loop txs 0 result))"

definition splitLargeBundles :: "BuyBundle list \<Rightarrow> BuyBundle list" where
  "splitLargeBundles bundles = split_loop bundles []"

text \<open>The transactions of a list of bundles, concatenated in order.\<close>

definition all_transactions :: "BuyBundle list \<Rightarrow> string list" where
  "all_transactions bundles = concat (map (\<lambda>b. case transactions b of None \<Rightarrow> [] | Some txs \<Rightarrow> txs) bundles)"

definition has_array :: "BuyBundle \<Rightarrow> bool" where
  "has_array b = (transactions b \<noteq> None)"

definition bundle_size :: "BuyBundle \<Rightarrow> nat" where
  "bundle_size b = (case transactions b of None \<Rightarrow> 0 | Some txs \<Rightarrow> length txs)"

text \<open>What one input bundle contributes to the output of \<open>splitLargeBundles\<close>.\<close>

definition split_one :: "BuyBundle \<Rightarrow> BuyBundle list" where
  "split_one b =
     (case transactions b of
        None \<Rightarrow> []
      | Some txs \<Rightarrow>
          if length txs \<le> MAX_TRANSACTIONS_PER_BUNDLE then [b] else chunk_loop txs 0 [])"

section \<open>Values, errors and the outside world\<close>

text \<open>
  A thrown JavaScript error; \<open>message\<close> is optional because the retry wrapper reads it
  as \<open>error.message?.includes(...)\<close>.
\<close>

datatype js_error = JsError (message: "string option")

text \<open>Decimal rendering of a count, as a template literal does for a number.\<close>

fun show_nat :: "nat \<Rightarrow> string" where
  "show_nat n =
     (if n < 10 then [char_of (48 + n)]
      else show_nat (n div 10) @ [char_of (48 + n mod 10)])"

declare show_nat.simps [simp del]

record WalletBuy =
  address :: string
  privateKey :: string

record BuyConfig =
  tokenAddress :: string
  protocol :: string
  solAmount :: rat
  amounts :: "rat list option"
  slippageBps :: "int option"
  jitoTipLamports :: "int option"
  bundleMode :: "string option"
  batchDelay :: "int option"
  singleDelay :: "int option"

text \<open>The relay's JSON-RPC answer (interface \<open>BundleResult\<close>).\<close>

record BundleResult =
  jsonrpc :: string
  rpc_id :: int
  rpc_result :: "string option"
  rpc_error :: "(int \<times> string) option"

text \<open>
  \<open>BuyResult\<close>. The \<open>result\<close> field holds the array \<open>results\<close> of what
  \<open>sendBundle\<close> returned; \<open>sendBundle\<close> returns \<open>data.result\<close>, which is
  \<open>undefined\<close> when the response has no such property, hence the inner option.
\<close>

record BuyResult =
  success :: bool
  result :: "BundleResult option list option"
  error :: "string option"

text \<open>A \<open>Keypair\<close> of the wallet library: the public key in base58 and the secret key.\<close>

record Keypair =
  publicKey :: string
  secretKey :: string

text \<open>
  The body of the HTTP response of \<open>/api/transactions/send\<close>. \<open>sendBundle\<close> reads
  only \<open>data.result\<close>; the other properties are those that \<open>sendToJitoBundleService\<close>
  (jitoService.ts), which posts to the same endpoint, reads: \<open>success\<close>, \<open>error\<close>
  and \<open>details\<close>.
\<close>

record RelayResponse =
  relay_success :: bool
  relay_result :: "BundleResult option"
  relay_error :: "string option"
  relay_details :: "string option"

text \<open>
  The parsed body of the builder's response, with the properties
  \<open>getPartiallyPreparedTransactions\<close> reads: \<open>success\<close>, \<open>error\<close>, \<open>bundles\<close>
  (present when it is an array; an entry is a plain array or a bundle object),
  \<open>transactions\<close> and \<open>data.transactions\<close> (present when they are arrays).
\<close>

datatype bundle_entry = PlainArray "string list" | BundleObject BuyBundle

record BuyResponseData =
  data_success :: bool
  data_error :: "string option"
  data_bundles :: "bundle_entry list option"
  data_transactions :: "string list option"
  data_data_transactions :: "string list option"

text \<open>The HTTP response: \<open>response.ok\<close>, \<open>response.status\<close> and the outcome of \<open>response.json()\<close>.\<close>

record BuyHttpResponse =
  ok :: bool
  status :: nat
  json :: "js_error + BuyResponseData"

text \<open>
  Everything outside the engine is a parameter. The world \<open>'w\<close> is the state of the
  network, the clock and the page; \<open>'t\<close> is the wallet library's
  \<open>VersionedTransaction\<close>. Calls that can reject return \<open>Inl\<close> of the error.
  \<^item> \<open>tradingServerUrl\<close>: \<open>window.tradingServerUrl\<close> (\<open>None\<close> when undefined);
  \<^item> \<open>fetch_buy url addresses config\<close>: the POST to \<open>/api/tokens/buy\<close>; the request body
    is built from the addresses, the config and the cookie defaults;
  \<^item> \<open>fetch_send url transactions\<close>: the POST to \<open>/api/transactions/send\<close> followed by
    \<open>response.json()\<close>;
  \<^item> \<open>fee_transaction payer\<close>: the body of the \<open>try\<close> block of
    \<open>createDeveloperBuyFeeTransaction\<close> (the blockhash request and the library calls that
    build, sign and encode the transfer);
  \<^item> \<open>date_now\<close> and \<open>set_timeout\<close>: \<open>Date.now()\<close> and awaiting a timer;
  \<^item> the remaining fields are pure library functions: \<open>Keypair.fromSecretKey(bs58.decode(k))\<close>,
    \<open>bs58.decode\<close>, \<open>Buffer.from(s, 'base64')\<close>, \<open>VersionedTransaction.deserialize\<close>,
    \<open>message.staticAccountKeys\<close> in base58, \<open>transaction.sign\<close> and
    \<open>bs58.encode(transaction.serialize())\<close>.
\<close>

record ('w, 't) env =
  tradingServerUrl :: "'w \<Rightarrow> string option"
  fetch_buy :: "string \<Rightarrow> string list \<Rightarrow> BuyConfig \<Rightarrow> 'w \<Rightarrow> (js_error + BuyHttpResponse) \<times> 'w"
  fetch_send :: "string \<Rightarrow> string list \<Rightarrow> 'w \<Rightarrow> (js_error + RelayResponse) \<times> 'w"
  fee_transaction :: "Keypair \<Rightarrow> 'w \<Rightarrow> (js_error + string) \<times> 'w"
  date_now :: "'w \<Rightarrow> int"
  set_timeout :: "int \<Rightarrow> 'w \<Rightarrow> 'w"
  keypair_fromSecretKey :: "string \<Rightarrow> js_error + Keypair"
  bs58_decode :: "string \<Rightarrow> js_error + nat list"
  base64_decode :: "string \<Rightarrow> nat list"
  deserialize :: "nat list \<Rightarrow> js_error + 't"
  staticAccountKeys :: "'t \<Rightarrow> string list"
  sign :: "'t \<Rightarrow> Keypair list \<Rightarrow> js_error + 't"
  serialize_bs58 :: "'t \<Rightarrow> js_error + string"

text \<open>
  The engine's own state: the module-level \<open>rateLimitState\<close>, and a trace of the calls
  made, kept to state properties about them: each call of
  \<open>getPartiallyPreparedTransactions\<close> (with its addresses), each call of \<open>sendBundle\<close>
  (with the transactions handed over) and each awaited timer (with the place in the
  source that sets it).
\<close>

record rate_limit =
  count :: int
  lastReset :: int
  maxBundlesPerSecond :: int

datatype wait_site = RateLimit | BetweenWallets | BetweenBatches | Staggered

datatype event = Prepare "string list" | Send "string list" | Wait wait_site int

record 'w sys =
  world :: 'w
  rateLimitState :: rate_limit
  events :: "event list"

definition sleep :: "('w, 't) env \<Rightarrow> wait_site \<Rightarrow> int \<Rightarrow> 'w sys \<Rightarrow> 'w sys" where
  "sleep env site ms st =
     st\<lparr>world := set_timeout env ms (world st), events := events st @ [Wait site ms]\<rparr>"

text \<open>\<open>(window as any).tradingServerUrl?.replace(/\/+$/, '') || ''\<close>\<close>

definition strip_trailing_slashes :: "string \<Rightarrow> string" where
  "strip_trailing_slashes s = rev (dropWhile (\<lambda>c. c = CHR ''/'') (rev s))"

definition baseUrl :: "('w, 't) env \<Rightarrow> 'w \<Rightarrow> string" where
  "baseUrl env w =
     (case tradingServerUrl env w of None \<Rightarrow> [] | Some u \<Rightarrow> strip_trailing_slashes u)"

section \<open>Rate limiter\<close>

definition checkRateLimit :: "('w, 't) env \<Rightarrow> 'w sys \<Rightarrow> 'w sys" where
  "checkRateLimit env st =
     (let now = date_now env (world st);
          rl = rateLimitState st;
          rl1 = (if now - lastReset rl \<ge> 1000 then rl\<lparr>count := 0, lastReset := now\<rparr> else rl)
      in if count rl1 \<ge> maxBundlesPerSecond rl1
         then (let waitTime = 1000 - (now - lastReset rl1);
                   st1 = sleep env RateLimit waitTime st;
                   rl2 = rl1\<lparr>count := 0, lastReset := date_now env (world st1)\<rparr>
               in st1\<lparr>rateLimitState := rl2\<lparr>count := count rl2 + 1\<rparr>\<rparr>)
         else st\<lparr>rateLimitState := rl1\<lparr>count := count rl1 + 1\<rparr>\<rparr>)"

section \<open>Bundle relay client\<close>

definition sendBundle ::
  "('w, 't) env \<Rightarrow> string list \<Rightarrow> 'w sys \<Rightarrow> (js_error + BundleResult option) \<times> 'w sys" where
  "sendBundle env encodedBundle st =
     (let st0 = st\<lparr>events := events st @ [Send encodedBundle]\<rparr>;
          url = baseUrl env (world st0)
      in if url = []
         then (Inl (JsError (Some ''Trading server URL not configured. Please check your server connection.'')), st0)
         else (case fetch_send env url encodedBundle (world st0) of
                 (Inl e, w) \<Rightarrow> (Inl e, st0\<lparr>world := w\<rparr>)
               | (Inr data, w) \<Rightarrow> (Inr (relay_result data), st0\<lparr>world := w\<rparr>)))"

section \<open>Bundle preparation client\<close>

text \<open>
  The normalisation of the response shapes, after the \<open>data.success\<close> check. The last
  shape of the source, \<open>Array.isArray(data)\<close>, needs a parsed body that is an array and
  has a truthy \<open>success\<close> property; JSON has no such value, so the branch is left out.
\<close>

definition normalize_response :: "BuyResponseData \<Rightarrow> js_error + BuyBundle list" where
  "normalize_response d =
     (case data_bundles d of
        Some bs \<Rightarrow>
          Inr (map (\<lambda>b. case b of PlainArray txs \<Rightarrow> \<lparr>transactions = Some txs\<rparr>
                                  | BundleObject bo \<Rightarrow> bo) bs)
      | None \<Rightarrow>
          (case data_transactions d of
             Some txs \<Rightarrow> Inr [\<lparr>transactions = Some txs\<rparr>]
           | None \<Rightarrow>
               (case data_data_transactions d of
                  Some txs \<Rightarrow> Inr [\<lparr>transactions = Some txs\<rparr>]
                | None \<Rightarrow> Inl (JsError (Some ''No transactions returned from backend'')))))"

definition getPartiallyPreparedTransactions ::
  "('w, 't) env \<Rightarrow> string list \<Rightarrow> BuyConfig \<Rightarrow> 'w sys \<Rightarrow> (js_error + BuyBundle list) \<times> 'w sys" where
  "getPartiallyPreparedTransactions env walletAddresses config st =
     (let st0 = st\<lparr>events := events st @ [Prepare walletAddresses]\<rparr>;
          url = baseUrl env (world st0)
      in if url = []
         then (Inl (JsError (Some ''Trading server URL not configured. Please check your server connection.'')), st0)
         else (case fetch_buy env url walletAddresses config (world st0) of
                 (Inl e, w) \<Rightarrow> (Inl e, st0\<lparr>world := w\<rparr>)
               | (Inr response, w) \<Rightarrow>
                   (let st1 = st0\<lparr>world := w\<rparr>
                    in if \<not> ok response
                       then (Inl (JsError (Some (''HTTP error! Status: '' @ show_nat (status response)))), st1)
                       else (case json response of
                               Inl e \<Rightarrow> (Inl e, st1)
                             | Inr d \<Rightarrow>
                                 if \<not> data_success d
                                 then (Inl (JsError (Some
                                        (case data_error d of
                                           None \<Rightarrow> ''Failed to get partially prepared transactions''
                                         | Some m \<Rightarrow> if m = [] then ''Failed to get partially prepared transactions'' else m))), st1)
                                 else (normalize_response d, st1)))))"

section \<open>Local signer\<close>

text \<open>
  The signer set of one transaction: for each static account key, the first wallet keypair
  with that public key, added unless it is in the set already.
\<close>

fun collect_signers :: "Keypair list \<Rightarrow> string list \<Rightarrow> Keypair list \<Rightarrow> Keypair list" where
  "collect_signers walletKeypairs [] signers = signers"
| "collect_signers walletKeypairs (pubkeyStr # keys) signers =
     (case find (\<lambda>kp. publicKey kp = pubkeyStr) walletKeypairs of
        Some matchingKeypair \<Rightarrow>
          if matchingKeypair \<notin> set signers
          then collect_signers walletKeypairs keys (signers @ [matchingKeypair])
          else collect_signers walletKeypairs keys signers
      | None \<Rightarrow> collect_signers walletKeypairs keys signers)"

text \<open>
  The callback of \<open>bundle.transactions.map\<close>: decode (base58, else base64), deserialize,
  find the signers, sign, serialize. Any error is rethrown.
\<close>

definition sign_transaction :: "('w, 't) env \<Rightarrow> Keypair list \<Rightarrow> string \<Rightarrow> js_error + string" where
  "sign_transaction env walletKeypairs txBase58 =
     (let txBuffer = (case bs58_decode env txBase58 of
                        Inr bytes \<Rightarrow> bytes
                      | Inl e \<Rightarrow> base64_decode env txBase58)
      in case deserialize env txBuffer of
           Inl e \<Rightarrow> Inl e
         | Inr transaction \<Rightarrow>
             (let signers = collect_signers walletKeypairs (staticAccountKeys env transaction) []
              in case sign env transaction signers of
                   Inl e \<Rightarrow> Inl e
                 | Inr signed \<Rightarrow> serialize_bs58 env signed))"

text \<open>\<open>Array.prototype.map\<close> with a callback that can throw: the first throw ends the map.\<close>

fun map_throwing :: "('a \<Rightarrow> js_error + 'b) \<Rightarrow> 'a list \<Rightarrow> js_error + 'b list" where
  "map_throwing f [] = Inr []"
| "map_throwing f (x # xs) =
     (case f x of
        Inl e \<Rightarrow> Inl e
      | Inr y \<Rightarrow> (case map_throwing f xs of Inl e \<Rightarrow> Inl e | Inr ys \<Rightarrow> Inr (y # ys)))"

text \<open>
  \<open>createDeveloperBuyFeeTransaction\<close>: the whole body is inside \<open>try\<close>, and the
  \<open>catch\<close> returns \<open>null\<close>, so the function returns a string or \<open>null\<close> and never
  throws.
\<close>

definition createDeveloperBuyFeeTransaction ::
  "('w, 't) env \<Rightarrow> Keypair \<Rightarrow> 'w \<Rightarrow> (js_error + string option) \<times> 'w" where
  "createDeveloperBuyFeeTransaction env payerKeypair w =
     (case fee_transaction env payerKeypair w of
        (Inl e, w') \<Rightarrow> (Inr None, w')
      | (Inr encoded, w') \<Rightarrow> (Inr (Some encoded), w'))"

text \<open>
  \<open>completeBundleSigning\<close>, with the function that creates the fee transaction as a
  parameter \<open>create_fee\<close> (it may throw, return \<open>null\<close> or return a string), so that
  the \<open>try\<close>/\<open>catch\<close> around the call is a branch of the model. The empty string is
  falsy in \<open>if (feeTransaction)\<close>.
\<close>

definition completeBundleSigning_with ::
  "(Keypair \<Rightarrow> 'w \<Rightarrow> (js_error + string option) \<times> 'w) \<Rightarrow> ('w, 't) env \<Rightarrow> BuyBundle \<Rightarrow>
   Keypair list \<Rightarrow> string \<Rightarrow> 'w sys \<Rightarrow> (js_error + BuyBundle) \<times> 'w sys" where
  "completeBundleSigning_with create_fee env b walletKeypairs proto st =
     (case transactions b of
        None \<Rightarrow> (Inr \<lparr>transactions = Some []\<rparr>, st)
      | Some txs \<Rightarrow>
          (case map_throwing (sign_transaction env walletKeypairs) txs of
             Inl e \<Rightarrow> (Inl e, st)
           | Inr signedTransactions \<Rightarrow>
               if (proto = ''pumpfun'' \<or> proto = ''bonk'') \<and> length walletKeypairs > 0
               then (case create_fee (hd walletKeypairs) (world st) of
                       (Inl e, w) \<Rightarrow>
                         (Inr \<lparr>transactions = Some signedTransactions\<rparr>, st\<lparr>world := w\<rparr>)
                     | (Inr None, w) \<Rightarrow>
                         (Inr \<lparr>transactions = Some signedTransactions\<rparr>, st\<lparr>world := w\<rparr>)
                     | (Inr (Some feeTransaction), w) \<Rightarrow>
                         if feeTransaction \<noteq> []
                         then (Inr \<lparr>transactions = Some (feeTransaction # signedTransactions)\<rparr>,
                               st\<lparr>world := w\<rparr>)
                         else (Inr \<lparr>transactions = Some signedTransactions\<rparr>, st\<lparr>world := w\<rparr>))
               else (Inr \<lparr>transactions = Some signedTransactions\<rparr>, st)))"

definition completeBundleSigning ::
  "('w, 't) env \<Rightarrow> BuyBundle \<Rightarrow> Keypair list \<Rightarrow> string \<Rightarrow> 'w sys \<Rightarrow> (js_error + BuyBundle) \<times> 'w sys" where
  "completeBundleSigning env = completeBundleSigning_with (createDeveloperBuyFeeTransaction env) env"

section \<open>Dispatch orchestrator\<close>

text \<open>How the \<open>try\<close> block of one unit of work (a wallet, a batch) ended.\<close>

datatype unit_outcome = Threw js_error | NoTransactions | Completed

text \<open>\<open>undefined.length\<close> throws a \<open>TypeError\<close>.\<close>

definition TypeError :: js_error where
  "TypeError = JsError (Some ''Cannot read properties of undefined (reading 'length')'')"

text \<open>
  The loop that sends signed bundles (batch mode):
  \<^verbatim>\<open>
  for (const bundle of signedBundles) {
    if (bundle.transactions.length > 0) {
      await checkRateLimit();
      const result = await sendBundle(bundle.transactions);
      results.push(result);
    }
  }
  \<close>
  It returns the error thrown, if any, with the \<open>results\<close> array as it stands then.
\<close>

fun send_loop ::
  "('w, 't) env \<Rightarrow> BuyBundle list \<Rightarrow> BundleResult option list \<Rightarrow> 'w sys \<Rightarrow>
   js_error option \<times> BundleResult option list \<times> 'w sys" where
  "send_loop env [] results st = (None, results, st)"
| "send_loop env (b # bs) results st =
     (case transactions b of
        None \<Rightarrow> (Some TypeError, results, st)
      | Some txs \<Rightarrow>
          if length txs > 0
          then (case sendBundle env txs (checkRateLimit env st) of
                  (Inl e, st') \<Rightarrow> (Some e, results, st')
                | (Inr r, st') \<Rightarrow> send_loop env bs (results @ [r]) st')
          else send_loop env bs results st)"

text \<open>
  The loop of single mode, which signs each bundle just before sending it:
  \<^verbatim>\<open>
  for (const bundle of partiallyPreparedBundles) {
    const signedBundle = await completeBundleSigning(bundle, [walletKeypair], config.protocol);
    if (signedBundle.transactions.length > 0) {
      await checkRateLimit();
      const result = await sendBundle(signedBundle.transactions);
      results.push(result);
    }
  }
  \<close>
\<close>

fun sign_send_loop ::
  "('w, 't) env \<Rightarrow> Keypair list \<Rightarrow> string \<Rightarrow> BuyBundle list \<Rightarrow> BundleResult option list \<Rightarrow>
   'w sys \<Rightarrow> js_error option \<times> BundleResult option list \<times> 'w sys" where
  "sign_send_loop env kps proto [] results st = (None, results, st)"
| "sign_send_loop env kps proto (b # bs) results st =
     (case completeBundleSigning env b kps proto st of
        (Inl e, st1) \<Rightarrow> (Some e, results, st1)
      | (Inr signedBundle, st1) \<Rightarrow>
          (case transactions signedBundle of
             None \<Rightarrow> (Some TypeError, results, st1)
           | Some txs \<Rightarrow>
               if length txs > 0
               then (case sendBundle env txs (checkRateLimit env st1) of
                       (Inl e, st2) \<Rightarrow> (Some e, results, st2)
                     | (Inr r, st2) \<Rightarrow> sign_send_loop env kps proto bs (results @ [r]) st2)
               else sign_send_loop env kps proto bs results st1))"

subsection \<open>Single mode\<close>

text \<open>
  The \<open>try\<close> block of \<open>executeBuySingleMode\<close> for one wallet; \<open>is_last\<close> is the
  negation of \<open>i < wallets.length - 1\<close>. The \<open>results\<close> array is shared by all
  wallets, so what was pushed before a throw stays pushed.
\<close>

definition single_wallet ::
  "('w, 't) env \<Rightarrow> BuyConfig \<Rightarrow> int \<Rightarrow> WalletBuy \<Rightarrow> bool \<Rightarrow> BundleResult option list \<Rightarrow>
   'w sys \<Rightarrow> unit_outcome \<times> BundleResult option list \<times> 'w sys" where
  "single_wallet env config delay wallet is_last results st =
     (case getPartiallyPreparedTransactions env [address wallet] config st of
        (Inl e, st1) \<Rightarrow> (Threw e, results, st1)
      | (Inr partiallyPreparedBundles, st1) \<Rightarrow>
          if length partiallyPreparedBundles = 0 then (NoTransactions, results, st1)
          else (case keypair_fromSecretKey env (privateKey wallet) of
                  Inl e \<Rightarrow> (Threw e, results, st1)
                | Inr walletKeypair \<Rightarrow>
                    (case sign_send_loop env [walletKeypair] (protocol config)
                            partiallyPreparedBundles results st1 of
                       (Some e, results', st2) \<Rightarrow> (Threw e, results', st2)
                     | (None, results', st2) \<Rightarrow>
                         (Completed, results',
                          if \<not> is_last then sleep env BetweenWallets delay st2 else st2))))"

text \<open>
  The loop over the wallets with its three accumulators: \<open>successfulWallets\<close> is
  incremented at the end of the \<open>try\<close> block, \<open>failedWallets\<close> before \<open>continue\<close>
  and in the \<open>catch\<close>.
\<close>

fun single_loop ::
  "('w, 't) env \<Rightarrow> BuyConfig \<Rightarrow> int \<Rightarrow> WalletBuy list \<Rightarrow> BundleResult option list \<times> nat \<times> nat \<Rightarrow>
   'w sys \<Rightarrow> (BundleResult option list \<times> nat \<times> nat) \<times> 'w sys" where
  "single_loop env config delay [] acc st = (acc, st)"
| "single_loop env config delay (wallet # wallets) (results, successfulWallets, failedWallets) st =
     (case single_wallet env config delay wallet (wallets = []) results st of
        (Completed, results', st') \<Rightarrow>
          single_loop env config delay wallets (results', successfulWallets + 1, failedWallets) st'
      | (NoTransactions, results', st') \<Rightarrow>
          single_loop env config delay wallets (results', successfulWallets, failedWallets + 1) st'
      | (Threw e, results', st') \<Rightarrow>
          single_loop env config delay wallets (results', successfulWallets, failedWallets + 1) st')"

text \<open>\<open>config.singleDelay || 200\<close> and \<open>config.batchDelay || 1000\<close>: zero is falsy.\<close>

definition or_default :: "int option \<Rightarrow> int \<Rightarrow> int" where
  "or_default v d = (case v of None \<Rightarrow> d | Some x \<Rightarrow> if x = 0 then d else x)"

definition executeBuySingleMode ::
  "('w, 't) env \<Rightarrow> WalletBuy list \<Rightarrow> BuyConfig \<Rightarrow> 'w sys \<Rightarrow> BuyResult \<times> 'w sys" where
  "executeBuySingleMode env wallets config st =
     (case single_loop env config (or_default (singleDelay config) 200) wallets ([], 0, 0) st of
        ((results, successfulWallets, failedWallets), st') \<Rightarrow>
          (\<lparr>success = successfulWallets > 0,
            result = Some results,
            error = (if failedWallets > 0
                     then Some (show_nat failedWallets @ '' wallets failed, ''
                                @ show_nat successfulWallets @ '' succeeded'')
                     else None)\<rparr>, st'))"

subsection \<open>Batch mode\<close>

definition batchSize :: nat where
  "batchSize = 5"

text \<open>
  \<^verbatim>\<open>
  for (let i = 0; i < wallets.length; i += batchSize) {
    batches.push(wallets.slice(i, i + batchSize));
  }
  \<close>
\<close>

function batch_slices :: "WalletBuy list \<Rightarrow> nat \<Rightarrow> WalletBuy list list \<Rightarrow> WalletBuy list list" where
  "batch_slices wallets i batches =
     (if i < length wallets
      then batch_slices wallets (i + batchSize) (batches @ [slice i (i + batchSize) wallets])
      else batches)"
  by pat_completeness auto
termination
  by (relation "measure (\<lambda>(wallets, i, batches). length wallets - i)")
     (auto simp: batchSize_def)

declare batch_slices.simps [simp del]

text \<open>
  \<open>Promise.all(splitBundles.map(bundle => completeBundleSigning(...)))\<close>: the map starts
  every signing, in order; the main signatures are computed synchronously, and only the
  fee transaction awaits the network. \<open>run_signing\<close> runs each call to its end, in order,
  and keeps every outcome; \<open>promise_all\<close> is the outcome of \<open>Promise.all\<close>: the list of
  values, or the first rejection.
\<close>

fun run_signing ::
  "('w, 't) env \<Rightarrow> Keypair list \<Rightarrow> string \<Rightarrow> BuyBundle list \<Rightarrow> 'w sys \<Rightarrow>
   (js_error + BuyBundle) list \<times> 'w sys" where
  "run_signing env kps proto [] st = ([], st)"
| "run_signing env kps proto (b # bs) st =
     (case completeBundleSigning env b kps proto st of
        (r, st1) \<Rightarrow> (case run_signing env kps proto bs st1 of (rs, st2) \<Rightarrow> (r # rs, st2)))"

fun promise_all :: "(js_error + 'a) list \<Rightarrow> js_error + 'a list" where
  "promise_all [] = Inr []"
| "promise_all (Inl e # rs) = Inl e"
| "promise_all (Inr x # rs) = (case promise_all rs of Inl e \<Rightarrow> Inl e | Inr xs \<Rightarrow> Inr (x # xs))"

text \<open>The \<open>try\<close> block of \<open>executeBuyBatchMode\<close> for one batch.\<close>

definition batch_unit ::
  "('w, 't) env \<Rightarrow> BuyConfig \<Rightarrow> int \<Rightarrow> WalletBuy list \<Rightarrow> bool \<Rightarrow> BundleResult option list \<Rightarrow>
   'w sys \<Rightarrow> unit_outcome \<times> BundleResult option list \<times> 'w sys" where
  "batch_unit env config delay batch is_last results st =
     (case getPartiallyPreparedTransactions env (map address batch) config st of
        (Inl e, st1) \<Rightarrow> (Threw e, results, st1)
      | (Inr partiallyPreparedBundles, st1) \<Rightarrow>
          if length partiallyPreparedBundles = 0 then (NoTransactions, results, st1)
          else (case map_throwing (\<lambda>wallet. keypair_fromSecretKey env (privateKey wallet)) batch of
                  Inl e \<Rightarrow> (Threw e, results, st1)
                | Inr walletKeypairs \<Rightarrow>
                    (case run_signing env walletKeypairs (protocol config)
                            (splitLargeBundles partiallyPreparedBundles) st1 of
                       (outcomes, st2) \<Rightarrow>
                         (case promise_all outcomes of
                            Inl e \<Rightarrow> (Threw e, results, st2)
                          | Inr signedBundles \<Rightarrow>
                              (case send_loop env signedBundles results st2 of
                                 (Some e, results', st3) \<Rightarrow> (Threw e, results', st3)
                               | (None, results', st3) \<Rightarrow>
                                   (Completed, results',
                                    if \<not> is_last then sleep env BetweenBatches delay st3
                                    else st3))))))"

fun batch_loop ::
  "('w, 't) env \<Rightarrow> BuyConfig \<Rightarrow> int \<Rightarrow> WalletBuy list list \<Rightarrow>
   BundleResult option list \<times> nat \<times> nat \<Rightarrow> 'w sys \<Rightarrow>
   (BundleResult option list \<times> nat \<times> nat) \<times> 'w sys" where
  "batch_loop env config delay [] acc st = (acc, st)"
| "batch_loop env config delay (batch # batches) (results, successfulBatches, failedBatches) st =
     (case batch_unit env config delay batch (batches = []) results st of
        (Completed, results', st') \<Rightarrow>
          batch_loop env config delay batches (results', successfulBatches + 1, failedBatches) st'
      | (NoTransactions, results', st') \<Rightarrow>
          batch_loop env config delay batches (results', successfulBatches, failedBatches + 1) st'
      | (Threw e, results', st') \<Rightarrow>
          batch_loop env config delay batches (results', successfulBatches, failedBatches + 1) st')"

definition executeBuyBatchMode ::
  "('w, 't) env \<Rightarrow> WalletBuy list \<Rightarrow> BuyConfig \<Rightarrow> 'w sys \<Rightarrow> BuyResult \<times> 'w sys" where
  "executeBuyBatchMode env wallets config st =
     (case batch_loop env config (or_default (batchDelay config) 1000)
             (batch_slices wallets 0 []) ([], 0, 0) st of
        ((results, successfulBatches, failedBatches), st') \<Rightarrow>
          (\<lparr>success = successfulBatches > 0,
            result = Some results,
            error = (if failedBatches > 0
                     then Some (show_nat failedBatches @ '' batches failed, ''
                                @ show_nat successfulBatches @ '' succeeded'')
                     else None)\<rparr>, st'))"

subsection \<open>All-in-one mode\<close>

text \<open>
  The submissions of all-in-one mode overlap in time: submission \<open>index\<close> awaits a timer
  of \<open>index * 100\<close> ms and then calls \<open>sendBundle\<close>, with no call of
  \<open>checkRateLimit\<close>. The timers fire in index order, so the requests are issued in
  index order; the model runs them one after the other in that order, each request with
  its response, and counts as \<open>forEach\<close> over the settled promises does. An
  error of \<open>sendBundle\<close> is caught per submission; \<open>results.push\<close> happens only for
  a result that is not \<open>undefined\<close>.
\<close>

fun staggered_sends ::
  "('w, 't) env \<Rightarrow> string list list \<Rightarrow> nat \<Rightarrow> BundleResult option list \<times> nat \<times> nat \<Rightarrow> 'w sys \<Rightarrow>
   (BundleResult option list \<times> nat \<times> nat) \<times> 'w sys" where
  "staggered_sends env [] index acc st = (acc, st)"
| "staggered_sends env (txs # rest) index (results, successfulBundles, failedBundles) st =
     (case sendBundle env txs (sleep env Staggered (int index * 100) st) of
        (Inr r, st') \<Rightarrow>
          staggered_sends env rest (index + 1)
            ((case r of None \<Rightarrow> results | Some v \<Rightarrow> results @ [r]), successfulBundles + 1, failedBundles) st'
      | (Inl e, st') \<Rightarrow>
          staggered_sends env rest (index + 1) (results, successfulBundles, failedBundles + 1) st')"

text \<open>\<open>bundle.transactions.length\<close> of every signed bundle, as the filter reads it.\<close>

definition transactions_of :: "BuyBundle list \<Rightarrow> js_error + string list list" where
  "transactions_of bs =
     map_throwing (\<lambda>b. case transactions b of None \<Rightarrow> Inl TypeError | Some txs \<Rightarrow> Inr txs) bs"

definition executeBuyAllInOneMode ::
  "('w, 't) env \<Rightarrow> WalletBuy list \<Rightarrow> BuyConfig \<Rightarrow> 'w sys \<Rightarrow> (js_error + BuyResult) \<times> 'w sys" where
  "executeBuyAllInOneMode env wallets config st =
     (case getPartiallyPreparedTransactions env (map address wallets) config st of
        (Inl e, st1) \<Rightarrow> (Inl e, st1)
      | (Inr partiallyPreparedBundles, st1) \<Rightarrow>
          if length partiallyPreparedBundles = 0
          then (Inr \<lparr>success = False, result = None, error = Some ''No transactions generated.''\<rparr>, st1)
          else (case map_throwing (\<lambda>wallet. keypair_fromSecretKey env (privateKey wallet)) wallets of
                  Inl e \<Rightarrow> (Inl e, st1)
                | Inr walletKeypairs \<Rightarrow>
                    (case run_signing env walletKeypairs (protocol config)
                            (splitLargeBundles partiallyPreparedBundles) st1 of
                       (outcomes, st2) \<Rightarrow>
                         (case promise_all outcomes of
                            Inl e \<Rightarrow> (Inl e, st2)
                          | Inr signedBundles \<Rightarrow>
                              (case transactions_of signedBundles of
                                 Inl e \<Rightarrow> (Inl e, st2)
                               | Inr signed \<Rightarrow>
                                   (let validSignedBundles = filter (\<lambda>txs. length txs > 0) signed
                                    in if length validSignedBundles = 0
                                       then (Inr \<lparr>success = False, result = None,
                                                  error = Some ''Failed to sign any transactions''\<rparr>, st2)
                                       else (case staggered_sends env validSignedBundles 0 ([], 0, 0) st2 of
                                               ((results, successfulBundles, failedBundles), st3) \<Rightarrow>
                                                 (Inr \<lparr>success = successfulBundles > 0,
                                                       result = Some results,
                                                       error = (if failedBundles > 0
                                                                then Some (show_nat failedBundles @ '' bundles failed, ''
                                                                           @ show_nat successfulBundles @ '' succeeded'')
                                                                else None)\<rparr>, st3))))))))"

subsection \<open>Dispatch\<close>

text \<open>
  \<open>executeBuy\<close>: \<open>config.bundleMode || 'batch'\<close>, the \<open>switch\<close>, and the \<open>catch\<close>
  that turns any error into \<open>{ success: false, error: error.message }\<close>.
\<close>

definition quoted :: "string \<Rightarrow> string" where
  "quoted s = [CHR 0x27] @ s @ [CHR 0x27]"

definition executeBuy ::
  "('w, 't) env \<Rightarrow> WalletBuy list \<Rightarrow> BuyConfig \<Rightarrow> 'w sys \<Rightarrow> BuyResult \<times> 'w sys" where
  "executeBuy env wallets config st =
     (let mode = (case bundleMode config of None \<Rightarrow> ''batch'' | Some m \<Rightarrow> if m = [] then ''batch'' else m)
      in if mode = ''single'' then executeBuySingleMode env wallets config st
         else if mode = ''batch'' then executeBuyBatchMode env wallets config st
         else if mode = ''all-in-one''
         then (case executeBuyAllInOneMode env wallets config st of
                 (Inr r, st') \<Rightarrow> (r, st')
               | (Inl e, st') \<Rightarrow> (\<lparr>success = False, result = None, error = message e\<rparr>, st'))
         else (\<lparr>success = False, result = None,
                error = Some (''Invalid bundle mode: '' @ mode @ ''. Must be '' @ quoted ''single''
                              @ '', '' @ quoted ''batch'' @ '', or '' @ quoted ''all-in-one'')\<rparr>, st))"

section \<open>Volume trading scheduler\<close>

subsection \<open>Retry with backoff\<close>

text \<open>\<open>String.prototype.includes\<close>.\<close>

fun str_includes :: "string \<Rightarrow> string \<Rightarrow> bool" where
  "str_includes [] sub = (sub = [])"
| "str_includes (c # cs) sub = (take (length sub) (c # cs) = sub \<or> str_includes cs sub)"

definition isNetworkError :: "js_error \<Rightarrow> bool" where
  "isNetworkError e =
     (case message e of
        None \<Rightarrow> False
      | Some m \<Rightarrow> str_includes m ''fetch'' \<or> str_includes m ''network''
                  \<or> str_includes m ''ECONNREFUSED'' \<or> str_includes m ''timeout'')"

text \<open>\<open>Math.min(1000 * Math.pow(2, attempt - 1), 5000)\<close>\<close>

definition backoff :: "nat \<Rightarrow> int" where
  "backoff attempt = min (1000 * 2 ^ (attempt - 1)) 5000"

text \<open>
  \<open>executeWithRetry\<close>. The operation is a computation on a state \<open>'s\<close> that returns a
  value or throws; \<open>wait\<close> is what awaiting a timer does to the state. The loop
  \<^verbatim>\<open>for (let attempt = 1; attempt <= maxRetries; attempt++)\<close>
  has the attempt number and \<open>lastError\<close> (\<open>None\<close> for \<open>undefined\<close>) as arguments; the
  delays awaited so far are collected in \<open>waits\<close>. The outcome is the value returned or
  the value thrown (\<open>throw lastError\<close>).
\<close>

function retry_loop ::
  "('s \<Rightarrow> (js_error + 'a) \<times> 's) \<Rightarrow> (int \<Rightarrow> 's \<Rightarrow> 's) \<Rightarrow> nat \<Rightarrow> nat \<Rightarrow> js_error option \<Rightarrow>
   int list \<Rightarrow> 's \<Rightarrow> (js_error option + 'a) \<times> int list \<times> 's" where
  "retry_loop operation wait maxRetries attempt lastError waits s =
     (if attempt \<le> maxRetries
      then (case operation s of
              (Inr res, s') \<Rightarrow> (Inr res, waits, s')
            | (Inl err, s') \<Rightarrow>
                if attempt = maxRetries \<or> \<not> isNetworkError err
                then (Inl (Some err), waits, s')
                else retry_loop operation wait maxRetries (attempt + 1) (Some err)
                       (waits @ [backoff attempt]) (wait (backoff attempt) s'))
      else (Inl lastError, waits, s))"
  by pat_completeness auto
termination
  by (relation "measure (\<lambda>(operation, wait, maxRetries, attempt, lastError, waits, s).
                  Suc maxRetries - attempt)") auto

declare retry_loop.simps [simp del]

definition executeWithRetry ::
  "('s \<Rightarrow> (js_error + 'a) \<times> 's) \<Rightarrow> (int \<Rightarrow> 's \<Rightarrow> 's) \<Rightarrow> nat \<Rightarrow> 's \<Rightarrow>
   (js_error option + 'a) \<times> int list \<times> 's" where
  "executeWithRetry operation wait maxRetries s = retry_loop operation wait maxRetries 1 None [] s"

subsection \<open>The scheduler object\<close>

text \<open>
  \<open>VolumeConfig\<close> and \<open>VolumeStats\<close> of the scheduler (the class \<open>VolumeBot\<close> with the
  private fields \<open>intervalId\<close>, \<open>lastUsedWalletIndex\<close> and \<open>lastTradeType\<close>). The
  fields of the configuration carry the prefix \<open>vc_\<close>, since \<open>BuyConfig\<close> has fields
  of the same names. The statistics object has the six properties of the object literal
  that initialises \<open>this.stats\<close>.
\<close>

record VolumeConfig =
  vc_tokenAddress :: string
  vc_wallets :: "string list"
  vc_minAmount :: rat
  vc_maxAmount :: rat
  vc_intervalMin :: "rat option"
  vc_intervalMax :: "rat option"
  vc_interval :: rat
  vc_duration :: rat
  vc_slippage :: "rat option"
  vc_sellPercent :: "rat option"
  vc_protocol :: "string option"

record VolumeStats =
  totalTrades :: int
  totalVolume :: rat
  successfulTrades :: int
  failedTrades :: int
  totalBuys :: int
  totalSells :: int

datatype trade_type = Buy | Sell

text \<open>
  \<open>this.stats\<close> is a reference to an object, and \<open>getStats\<close> builds a new object, so
  objects live in a store: \<open>objects\<close> is the list of the statistics objects allocated
  so far, and a reference is a position in it. The field \<open>stats\<close> of the scheduler is
  such a reference.
\<close>

record VolumeBot =
  config :: "VolumeConfig option"
  stats :: nat
  intervalId :: "nat option"
  isRunning :: bool
  lastUsedWalletIndex :: int
  lastTradeType :: "trade_type option"

text \<open>
  The timers of the JavaScript runtime: \<open>setTimeout\<close> and \<open>setInterval\<close> add a pending
  timer and return its handle, \<open>clearInterval\<close> removes the timer with the given handle.
  The callbacks that \<open>startTradingLoop\<close> schedules are the closure
  \<open>executeSmartTrade\<close>, the arrow function of the first \<open>setInterval\<close> (which re-arms
  the interval) and the arrow function that calls \<open>this.stop()\<close>.
\<close>

datatype callback = ExecuteSmartTrade | RearmInterval | StopAfterDuration

datatype timer_kind = Timeout | Interval

record timer =
  handle :: nat
  kind :: timer_kind
  action :: callback
  delay_ms :: rat

record machine =
  volumeBot :: VolumeBot
  objects :: "VolumeStats list"
  timers :: "timer list"
  next_handle :: nat

definition add_timer :: "timer_kind \<Rightarrow> callback \<Rightarrow> rat \<Rightarrow> machine \<Rightarrow> nat \<times> machine" where
  "add_timer k cb ms m =
     (next_handle m,
      m\<lparr>timers := timers m @ [\<lparr>handle = next_handle m, kind = k, action = cb, delay_ms = ms\<rparr>],
        next_handle := next_handle m + 1\<rparr>)"

definition setTimeout :: "callback \<Rightarrow> rat \<Rightarrow> machine \<Rightarrow> nat \<times> machine" where
  "setTimeout = add_timer Timeout"

definition setInterval :: "callback \<Rightarrow> rat \<Rightarrow> machine \<Rightarrow> nat \<times> machine" where
  "setInterval = add_timer Interval"

definition clearInterval :: "nat \<Rightarrow> machine \<Rightarrow> machine" where
  "clearInterval h m = m\<lparr>timers := filter (\<lambda>t. handle t \<noteq> h) (timers m)\<rparr>"

text \<open>
  The state after \<open>new VolumeBot()\<close> in a fresh runtime: the statistics object is
  allocated at position 0, no timer is pending.
\<close>

definition new_VolumeBot :: machine where
  "new_VolumeBot =
     \<lparr>volumeBot = \<lparr>config = None, stats = 0, intervalId = None, isRunning = False,
              lastUsedWalletIndex = - 1, lastTradeType = None\<rparr>,
      objects = [\<lparr>totalTrades = 0, totalVolume = 0, successfulTrades = 0, failedTrades = 0,
                  totalBuys = 0, totalSells = 0\<rparr>],
      timers = [],
      next_handle = 1\<rparr>"

text \<open>A number is truthy when it is defined and not zero.\<close>

definition truthy :: "rat option \<Rightarrow> bool" where
  "truthy v = (case v of None \<Rightarrow> False | Some x \<Rightarrow> x \<noteq> 0)"

text \<open>\<open>getRandomInterval\<close>; \<open>rnd\<close> is the value of \<open>Math.random()\<close>.\<close>

definition getRandomInterval :: "rat \<Rightarrow> machine \<Rightarrow> rat" where
  "getRandomInterval rnd m =
     (case config (volumeBot m) of
        None \<Rightarrow> 5000
      | Some c \<Rightarrow>
          if truthy (vc_intervalMin c) \<and> truthy (vc_intervalMax c)
          then (let lo = the (vc_intervalMin c) * 1000;
                    hi = the (vc_intervalMax c) * 1000
                in of_int \<lfloor>rnd * (hi - lo + 1)\<rfloor> + lo)
          else vc_interval c * 1000)"

text \<open>
  \<open>startTradingLoop\<close>: the warm-up timeout, the interval (its handle is stored in
  \<open>this.intervalId\<close>) and, for a positive duration, the timeout that stops the
  scheduler. The handles of the two timeouts are not stored.
\<close>

definition startTradingLoop :: "rat \<Rightarrow> machine \<Rightarrow> machine" where
  "startTradingLoop rnd m =
     (case config (volumeBot m) of
        None \<Rightarrow> m
      | Some c \<Rightarrow>
          (let m1 = snd (setTimeout ExecuteSmartTrade 500 m);
               userInterval = getRandomInterval rnd m1;
               (h, m2) = setInterval RearmInterval userInterval m1;
               m3 = m2\<lparr>volumeBot := (volumeBot m2)\<lparr>intervalId := Some h\<rparr>\<rparr>
           in if vc_duration c > 0
              then snd (setTimeout StopAfterDuration (vc_duration c * 60 * 1000) m3)
              else m3))"

text \<open>
  \<open>start\<close>; \<open>url\<close> is \<open>window.tradingServerUrl\<close> (falsy when undefined or empty).
\<close>

definition start :: "VolumeConfig \<Rightarrow> string option \<Rightarrow> rat \<Rightarrow> machine \<Rightarrow> js_error + machine" where
  "start c url rnd m =
     (if isRunning (volumeBot m) then Inl (JsError (Some ''Volume bot is already running''))
      else if url = None \<or> url = Some []
      then Inl (JsError (Some
             ''Trading server URL not configured. Please check your server connection in settings.''))
      else Inr (startTradingLoop rnd
                  (m\<lparr>volumeBot := (volumeBot m)\<lparr>config := Some c, isRunning := True\<rparr>\<rparr>)))"

text \<open>\<open>stop\<close>; a timer handle (\<open>NodeJS.Timeout\<close>) is truthy.\<close>

definition stop :: "machine \<Rightarrow> machine" where
  "stop m =
     (let m1 = (case intervalId (volumeBot m) of
                  Some h \<Rightarrow> (clearInterval h m)\<lparr>volumeBot := (volumeBot m)\<lparr>intervalId := None\<rparr>\<rparr>
                | None \<Rightarrow> m)
      in m1\<lparr>volumeBot := (volumeBot m1)\<lparr>isRunning := False, config := None\<rparr>\<rparr>)"

text \<open>
  \<open>getStats\<close>: \<open>return { ...this.stats }\<close> allocates a new object with the same
  property values and returns the reference to it. A reference outside the store does
  not occur (the constructor allocates the object); the model then copies nothing.
\<close>

definition getStats :: "machine \<Rightarrow> nat \<times> machine" where
  "getStats m =
     (length (objects m),
      m\<lparr>objects := objects m @ (if stats (volumeBot m) < length (objects m)
                                 then [objects m ! stats (volumeBot m)] else [])\<rparr>)"

definition isActive :: "machine \<Rightarrow> bool" where
  "isActive m = isRunning (volumeBot m)"

text \<open>
  A caller mutating an object it holds a reference to: assignment of new property values
  to the object at \<open>r\<close>.
\<close>

definition mutate :: "nat \<Rightarrow> (VolumeStats \<Rightarrow> VolumeStats) \<Rightarrow> machine \<Rightarrow> machine" where
  "mutate r f m =
     (if r < length (objects m) then m\<lparr>objects := (objects m)[r := f (objects m ! r)]\<rparr> else m)"

text \<open>The scheduler is idle: the state that the constructor and \<open>stop\<close> leave.\<close>

definition idle :: "machine \<Rightarrow> bool" where
  "idle m =
     (\<not> isRunning (volumeBot m) \<and> config (volumeBot m) = None \<and> intervalId (volumeBot m) = None)"

section \<open>Observations on a run\<close>

text \<open>
  The addresses of the preparation calls in a trace, the transaction lists handed to
  \<open>sendBundle\<close>, and the durations of the waits between batches.
\<close>

definition prepares :: "event list \<Rightarrow> string list list" where
  "prepares evs = concat (map (\<lambda>e. case e of Prepare a \<Rightarrow> [a] | _ \<Rightarrow> []) evs)"

definition sends :: "event list \<Rightarrow> string list list" where
  "sends evs = concat (map (\<lambda>e. case e of Send txs \<Rightarrow> [txs] | _ \<Rightarrow> []) evs)"

definition waits_at :: "wait_site \<Rightarrow> event list \<Rightarrow> int list" where
  "waits_at site evs =
     concat (map (\<lambda>e. case e of Wait s ms \<Rightarrow> if s = site then [ms] else [] | _ \<Rightarrow> []) evs)"

text \<open>
  The outcomes of the units of work of a run, in order: what the \<open>try\<close> block of each
  wallet (single mode) or batch (batch mode) did, the state being threaded as the loop
  threads it.
\<close>

fun single_outcomes ::
  "('w, 't) env \<Rightarrow> BuyConfig \<Rightarrow> int \<Rightarrow> WalletBuy list \<Rightarrow> BundleResult option list \<Rightarrow> 'w sys \<Rightarrow>
   unit_outcome list" where
  "single_outcomes env cfg d [] results st = []"
| "single_outcomes env cfg d (wallet # wallets) results st =
     (case single_wallet env cfg d wallet (wallets = []) results st of
        (out, results', st') \<Rightarrow> out # single_outcomes env cfg d wallets results' st')"


definition succeeded :: "unit_outcome list \<Rightarrow> nat" where
  "succeeded outs = length (filter (\<lambda>out. out = Completed) outs)"

definition failed :: "unit_outcome list \<Rightarrow> nat" where
  "failed outs = length (filter (\<lambda>out. out \<noteq> Completed) outs)"

text \<open>The outcomes of the units of a whole run of single mode and of batch mode.\<close>

definition single_run_outcomes ::
  "('w, 't) env \<Rightarrow> WalletBuy list \<Rightarrow> BuyConfig \<Rightarrow> 'w sys \<Rightarrow> unit_outcome list" where
  "single_run_outcomes env wallets cfg st =
     single_outcomes env cfg (or_default (singleDelay cfg) 200) wallets [] st"


text \<open>
  The part of a trace that batch mode is judged by, in order: the preparation calls and
  the waits between batches.
\<close>

definition batch_trace :: "event list \<Rightarrow> event list" where
  "batch_trace evs =
     filter (\<lambda>e. case e of Prepare a \<Rightarrow> True | Send txs \<Rightarrow> False
                            | Wait site ms \<Rightarrow> site = BetweenBatches) evs"

text \<open>Two states agree on that part of their traces.\<close>

definition same_obs :: "'w sys \<Rightarrow> 'w sys \<Rightarrow> bool" where
  "same_obs st st' = (batch_trace (events st') = batch_trace (events st))"

section \<open>Scenarios\<close>

text \<open>
  Concrete inputs on which the properties below are evaluated. A volume session: a
  configuration with a duration of one minute, the machine after \<open>start\<close> on a new
  scheduler, the machine after \<open>stop\<close> and a second \<open>start\<close>, and a scheduler that
  has been stopped after a session with two trades.
\<close>

definition example_config :: VolumeConfig where
  "example_config =
     \<lparr>vc_tokenAddress = ''TOKEN'', vc_wallets = [''key1'', ''key2''],
      vc_minAmount = 1 / 100, vc_maxAmount = 1 / 10,
      vc_intervalMin = Some 5, vc_intervalMax = Some 10, vc_interval = 5, vc_duration = 1,
      vc_slippage = None, vc_sellPercent = None, vc_protocol = None\<rparr>"

definition session_started :: machine where
  "session_started =
     (case start example_config (Some ''http://localhost:3000'') 0 new_VolumeBot of
        Inr m \<Rightarrow> m
      | Inl e \<Rightarrow> new_VolumeBot)"

definition session_restarted :: machine where
  "session_restarted =
     (case start example_config (Some ''http://localhost:3000'') 0 (stop session_started) of
        Inr m \<Rightarrow> m
      | Inl e \<Rightarrow> new_VolumeBot)"

definition after_first_session :: machine where
  "after_first_session =
     \<lparr>volumeBot = \<lparr>config = None, stats = 0, intervalId = None, isRunning = False,
                    lastUsedWalletIndex = 1, lastTradeType = Some Buy\<rparr>,
      objects = [\<lparr>totalTrades = 2, totalVolume = 1 / 20, successfulTrades = 1, failedTrades = 1,
                  totalBuys = 1, totalSells = 0\<rparr>],
      timers = [],
      next_handle = 5\<rparr>"

text \<open>
  A dispatch scenario fixes the outside world: the builder's answer to the \<open>n\<close>-th
  request (the world counts the builder requests made so far), the relay's answer and
  the outcome of building the fee transaction. The clock stands still, timers fire at
  once, every wallet key decodes, and signing a transaction \<open>tx\<close> yields \<open>signed:tx\<close>.
\<close>

definition to_bytes :: "string \<Rightarrow> nat list" where
  "to_bytes s = map of_char s"

definition from_bytes :: "nat list \<Rightarrow> string" where
  "from_bytes bs = map char_of bs"

definition scenario_env ::
  "(nat \<Rightarrow> js_error + BuyHttpResponse) \<Rightarrow> (js_error + RelayResponse) \<Rightarrow> (js_error + string) \<Rightarrow>
   (nat, nat list) env" where
  "scenario_env builder relay fee =
     \<lparr>tradingServerUrl = (\<lambda>w. Some ''http://localhost:3000/''),
      fetch_buy = (\<lambda>url addrs cfg w. (builder w, w + 1)),
      fetch_send = (\<lambda>url txs w. (relay, w)),
      fee_transaction = (\<lambda>payer w. (fee, w)),
      date_now = (\<lambda>w. 0),
      set_timeout = (\<lambda>ms w. w),
      keypair_fromSecretKey = (\<lambda>k. Inr \<lparr>publicKey = ''pub:'' @ k, secretKey = k\<rparr>),
      bs58_decode = (\<lambda>s. Inr (to_bytes s)),
      base64_decode = to_bytes,
      deserialize = (\<lambda>bytes. Inr bytes),
      staticAccountKeys = (\<lambda>t. []),
      sign = (\<lambda>t signers. Inr t),
      serialize_bs58 = (\<lambda>t. Inr (''signed:'' @ from_bytes t))\<rparr>"

definition builder_returns :: "string list \<Rightarrow> js_error + BuyHttpResponse" where
  "builder_returns txs =
     Inr \<lparr>ok = True, status = 200,
          json = Inr \<lparr>data_success = True, data_error = None,
                      data_bundles = Some [PlainArray txs],
                      data_transactions = None, data_data_transactions = None\<rparr>\<rparr>"

definition builder_unreachable :: "js_error + BuyHttpResponse" where
  "builder_unreachable = Inl (JsError (Some ''Failed to fetch''))"

definition relay_accepts :: "js_error + RelayResponse" where
  "relay_accepts =
     Inr \<lparr>relay_success = True,
          relay_result = Some \<lparr>jsonrpc = ''2.0'', rpc_id = 1, rpc_result = Some ''bundle-id'',
                                rpc_error = None\<rparr>,
          relay_error = None, relay_details = None\<rparr>"

definition relay_rejects :: "js_error + RelayResponse" where
  "relay_rejects =
     Inr \<lparr>relay_success = False, relay_result = None,
          relay_error = Some ''Bundle rejected'', relay_details = Some ''simulation failed''\<rparr>"

definition initial_sys :: "nat sys" where
  "initial_sys =
     \<lparr>world = 0,
      rateLimitState = \<lparr>count = 0, lastReset = 0, maxBundlesPerSecond = int MAX_BUNDLES_PER_SECOND\<rparr>,
      events = []\<rparr>"

definition wallet_no :: "nat \<Rightarrow> WalletBuy" where
  "wallet_no i = \<lparr>address = ''wallet'' @ show_nat i, privateKey = ''key'' @ show_nat i\<rparr>"

definition buy_config :: "string \<Rightarrow> string \<Rightarrow> BuyConfig" where
  "buy_config proto mode =
     \<lparr>tokenAddress = ''TOKEN'', protocol = proto, solAmount = 1 / 100, amounts = None,
      slippageBps = None, jitoTipLamports = None, bundleMode = Some mode,
      batchDelay = None, singleDelay = None\<rparr>"

text \<open>
  A scenario for the signer: the wallet library's transaction is a payload with the list
  of the public keys that signed it. Every transaction names the account keys
  \<open>pub:key1\<close>, \<open>pub:key9\<close>, \<open>pub:key1\<close> and \<open>pub:key2\<close>; signing without a signer
  throws; the encoding of a signed transaction shows its signers.
\<close>

definition signing_env :: "(js_error + string) \<Rightarrow> (nat, string \<times> string list) env" where
  "signing_env fee =
     \<lparr>tradingServerUrl = (\<lambda>w. Some ''http://localhost:3000/''),
      fetch_buy = (\<lambda>url addrs cfg w. (builder_unreachable, w + 1)),
      fetch_send = (\<lambda>url txs w. (relay_accepts, w)),
      fee_transaction = (\<lambda>payer w. (fee, w)),
      date_now = (\<lambda>w. 0),
      set_timeout = (\<lambda>ms w. w),
      keypair_fromSecretKey = (\<lambda>k. Inr \<lparr>publicKey = ''pub:'' @ k, secretKey = k\<rparr>),
      bs58_decode = (\<lambda>s. Inr (to_bytes s)),
      base64_decode = to_bytes,
      deserialize = (\<lambda>bytes. Inr (from_bytes bytes, [])),
      staticAccountKeys = (\<lambda>t. [''pub:key1'', ''pub:key9'', ''pub:key1'', ''pub:key2'']),
      sign = (\<lambda>t signers. if signers = [] then Inl (JsError (Some ''No signers''))
                           else Inr (fst t, map publicKey signers)),
      serialize_bs58 =
        (\<lambda>t. Inr (''signed['' @ concat (map (\<lambda>k. k @ '';'') (snd t)) @ '']:'' @ fst t))\<rparr>"

text \<open>
  A builder that answers with several bundles, and a scenario whose relay answers by the
  transactions it is handed.
\<close>

definition builder_returns_bundles :: "string list list \<Rightarrow> js_error + BuyHttpResponse" where
  "builder_returns_bundles bundles =
     Inr \<lparr>ok = True, status = 200,
          json = Inr \<lparr>data_success = True, data_error = None,
                      data_bundles = Some (map PlainArray bundles),
                      data_transactions = None, data_data_transactions = None\<rparr>\<rparr>"

definition relay_scenario_env ::
  "(nat \<Rightarrow> js_error + BuyHttpResponse) \<Rightarrow> (string list \<Rightarrow> js_error + RelayResponse) \<Rightarrow>
   (nat, nat list) env" where
  "relay_scenario_env builder relay =
     (scenario_env builder relay_accepts (Inr ''fee-tx''))
       \<lparr>fetch_send := (\<lambda>url txs w. (relay txs, w))\<rparr>"

definition relay_unreachable :: "js_error + RelayResponse" where
  "relay_unreachable = Inl (JsError (Some ''Failed to fetch''))"

section \<open>Properties of the bundle splitter\<close>

lemma all_transactions_append:
  "all_transactions (xs @ ys) = all_transactions xs @ all_transactions ys"
  by (simp add: all_transactions_def)

lemma chunk_loop_acc: "chunk_loop txs i acc = acc @ chunk_loop txs i []"
proof (induction "length txs - i" arbitrary: i acc rule: less_induct)
  case less
  show ?case
  proof (cases "i < length txs")
    case True
    let ?c = "\<lparr>transactions = Some (slice i (i + MAX_TRANSACTIONS_PER_BUNDLE) txs)\<rparr>"
    let ?j = "i + MAX_TRANSACTIONS_PER_BUNDLE"
    have dec: "length txs - ?j < length txs - i"
      using True by (simp add: MAX_TRANSACTIONS_PER_BUNDLE_def)
    have "chunk_loop txs i acc = chunk_loop txs ?j (acc @ [?c])"
      using True by (subst chunk_loop.simps) simp
    also have "\<dots> = (acc @ [?c]) @ chunk_loop txs ?j []"
      using less [OF dec] .
    also have "\<dots> = acc @ chunk_loop txs ?j [?c]"
      using less [OF dec, of "[?c]"] by simp
    also have "chunk_loop txs ?j [?c] = chunk_loop txs i []"
      using True by (subst (2) chunk_loop.simps) simp
    finally show ?thesis .
  next
    case False
    then show ?thesis by (simp add: chunk_loop.simps)
  qed
qed

lemma chunk_loop_concat:
  "i \<le> length txs \<Longrightarrow> all_transactions (chunk_loop txs i []) = drop i txs"
proof (induction "length txs - i" arbitrary: i rule: less_induct)
  case less
  show ?case
  proof (cases "i < length txs")
    case True
    let ?c = "\<lparr>transactions = Some (slice i (i + MAX_TRANSACTIONS_PER_BUNDLE) txs)\<rparr>"
    let ?j = "i + MAX_TRANSACTIONS_PER_BUNDLE"
    have step: "chunk_loop txs i [] = [?c] @ chunk_loop txs ?j []"
      using True chunk_loop_acc [of txs ?j "[?c]"] by (subst chunk_loop.simps) simp
    show ?thesis
    proof (cases "?j \<le> length txs")
      case le: True
      have dec: "length txs - ?j < length txs - i"
        using True by (simp add: MAX_TRANSACTIONS_PER_BUNDLE_def)
      have "all_transactions (chunk_loop txs ?j []) = drop ?j txs"
        using less(1) [OF dec le] .
      then show ?thesis
        unfolding step all_transactions_append
        by (simp add: all_transactions_def slice_def add.commute take_add [symmetric] drop_drop [symmetric] del: drop_drop)
    next
      case gt: False
      have "chunk_loop txs ?j [] = []"
        using gt by (subst chunk_loop.simps) simp
      then show ?thesis
        unfolding step all_transactions_append
        using gt by (simp add: all_transactions_def slice_def)
    qed
  next
    case False
    with less(2) show ?thesis by (simp add: chunk_loop.simps all_transactions_def)
  qed
qed

lemma chunk_loop_bounded:
  "\<forall>b \<in> set (chunk_loop txs i []). bundle_size b \<le> MAX_TRANSACTIONS_PER_BUNDLE \<and> has_array b"
proof (induction "length txs - i" arbitrary: i rule: less_induct)
  case less
  show ?case
  proof (cases "i < length txs")
    case True
    let ?c = "\<lparr>transactions = Some (slice i (i + MAX_TRANSACTIONS_PER_BUNDLE) txs)\<rparr>"
    let ?j = "i + MAX_TRANSACTIONS_PER_BUNDLE"
    have step: "chunk_loop txs i [] = [?c] @ chunk_loop txs ?j []"
      using True chunk_loop_acc [of txs ?j "[?c]"] by (subst chunk_loop.simps) simp
    have dec: "length txs - ?j < length txs - i"
      using True by (simp add: MAX_TRANSACTIONS_PER_BUNDLE_def)
    show ?thesis
      unfolding step using less [OF dec]
      by (simp add: bundle_size_def has_array_def slice_def)
  next
    case False
    then show ?thesis by (simp add: chunk_loop.simps)
  qed
qed

lemma split_loop_acc: "split_loop bundles acc = acc @ split_loop bundles []"
proof (induction bundles arbitrary: acc)
  case Nil
  show ?case by simp
next
  case (Cons b bundles)
  show ?case
  proof (cases "transactions b")
    case None
    then show ?thesis using Cons [of acc] by simp
  next
    case (Some txs)
    show ?thesis
    proof (cases "length txs \<le> MAX_TRANSACTIONS_PER_BUNDLE")
      case True
      then show ?thesis
        using Some Cons [of "acc @ [b]"] Cons [of "[b]"] by simp
    next
      case False
      then show ?thesis
        using Some Cons [of "chunk_loop txs 0 acc"] Cons [of "chunk_loop txs 0 []"]
          chunk_loop_acc [of txs 0 acc]
        by simp
    qed
  qed
qed

lemma splitLargeBundles_Nil: "splitLargeBundles [] = []"
  by (simp add: splitLargeBundles_def)

lemma splitLargeBundles_Cons:
  "splitLargeBundles (b # bundles) = split_one b @ splitLargeBundles bundles"
proof (cases "transactions b")
  case None
  then show ?thesis by (simp add: splitLargeBundles_def split_one_def)
next
  case (Some txs)
  show ?thesis
  proof (cases "length txs \<le> MAX_TRANSACTIONS_PER_BUNDLE")
    case True
    then show ?thesis
      using Some split_loop_acc [of bundles "[b]"]
      by (simp add: splitLargeBundles_def split_one_def)
  next
    case False
    then show ?thesis
      using Some split_loop_acc [of bundles "chunk_loop txs 0 []"]
      by (simp add: splitLargeBundles_def split_one_def)
  qed
qed

lemma splitLargeBundles_append:
  "splitLargeBundles (xs @ ys) = splitLargeBundles xs @ splitLargeBundles ys"
  by (induction xs) (simp_all add: splitLargeBundles_Nil splitLargeBundles_Cons)

lemma split_one_concat: "all_transactions (split_one b) = all_transactions [b]"
proof (cases "transactions b")
  case None
  then show ?thesis by (simp add: split_one_def all_transactions_def)
next
  case (Some txs)
  have "all_transactions (chunk_loop txs 0 []) = txs"
    using chunk_loop_concat [of 0 txs] by simp
  then show ?thesis
    using Some by (simp add: split_one_def) (simp add: all_transactions_def)
qed

lemma split_one_bounded:
  "b' \<in> set (split_one b) \<Longrightarrow> has_array b' \<and> bundle_size b' \<le> MAX_TRANSACTIONS_PER_BUNDLE"
proof (cases "transactions b")
  case None
  assume "b' \<in> set (split_one b)"
  with None show ?thesis by (simp add: split_one_def)
next
  case (Some txs)
  assume mem: "b' \<in> set (split_one b)"
  show ?thesis
  proof (cases "length txs \<le> MAX_TRANSACTIONS_PER_BUNDLE")
    case True
    with Some mem show ?thesis
      by (simp add: split_one_def has_array_def bundle_size_def)
  next
    case False
    with Some mem have "b' \<in> set (chunk_loop txs 0 [])"
      by (simp add: split_one_def)
    then show ?thesis using chunk_loop_bounded [of txs 0] by blast
  qed
qed

lemma splitLargeBundles_concat:
  "all_transactions (splitLargeBundles bundles) = all_transactions bundles"
proof (induction bundles)
  case Nil
  show ?case by (simp add: splitLargeBundles_Nil)
next
  case (Cons b bundles)
  have "all_transactions (b # bundles) = all_transactions [b] @ all_transactions bundles"
    by (simp add: all_transactions_def)
  then show ?case
    using Cons by (simp add: splitLargeBundles_Cons all_transactions_append split_one_concat)
qed

lemma splitLargeBundles_bounded:
  "b' \<in> set (splitLargeBundles bundles) \<Longrightarrow>
   has_array b' \<and> bundle_size b' \<le> MAX_TRANSACTIONS_PER_BUNDLE"
proof (induction bundles)
  case Nil
  then show ?case by (simp add: splitLargeBundles_Nil)
next
  case (Cons b bundles)
  then show ?case
    using split_one_bounded [of b' b] by (auto simp: splitLargeBundles_Cons)
qed

lemma splitLargeBundles_small:
  assumes "has_array b" and "bundle_size b \<le> MAX_TRANSACTIONS_PER_BUNDLE"
  shows "splitLargeBundles (pre @ b # post) = splitLargeBundles pre @ b # splitLargeBundles post"
proof -
  have "split_one b = [b]"
    using assms by (auto simp: split_one_def has_array_def bundle_size_def)
  then show ?thesis
    by (simp add: splitLargeBundles_append splitLargeBundles_Cons)
qed

text \<open>
  Claim C5. Bundle splitting is order-preserving and size-bounded: the transactions of
  the output bundles, concatenated, are the transactions of the input bundles,
  concatenated, in the same order; every output bundle has a transactions array with at
  most \<open>MAX_TRANSACTIONS_PER_BUNDLE\<close> (5) entries; and a bundle that is already within
  the limit passes through unchanged, at its place between the outputs of the bundles
  before it and after it. (An input bundle without a transactions array contributes no
  transaction and is dropped; the claim is about inputs that all have the array.)
\<close>

theorem splitLargeBundles_order_and_bound:
  "all_transactions (splitLargeBundles bundles) = all_transactions bundles
   \<and> (\<forall>b \<in> set (splitLargeBundles bundles).
         has_array b \<and> bundle_size b \<le> MAX_TRANSACTIONS_PER_BUNDLE)
   \<and> (\<forall>pre b post. bundles = pre @ b # post \<and> has_array b
          \<and> bundle_size b \<le> MAX_TRANSACTIONS_PER_BUNDLE \<longrightarrow>
        splitLargeBundles bundles = splitLargeBundles pre @ b # splitLargeBundles post)"
  using splitLargeBundles_concat [of bundles] splitLargeBundles_bounded [of _ bundles]
    splitLargeBundles_small
  by blast

theorem splitLargeBundles_order_and_bound_witness:
  "splitLargeBundles
     [\<lparr>transactions = Some [''a'', ''b'', ''c'', ''d'', ''e'', ''f'', ''g'']\<rparr>,
      \<lparr>transactions = Some [''h'']\<rparr>]
   = [\<lparr>transactions = Some [''a'', ''b'', ''c'', ''d'', ''e'']\<rparr>,
      \<lparr>transactions = Some [''f'', ''g'']\<rparr>,
      \<lparr>transactions = Some [''h'']\<rparr>]
   \<and> all_transactions (splitLargeBundles
     [\<lparr>transactions = Some [''a'', ''b'', ''c'', ''d'', ''e'', ''f'', ''g'']\<rparr>,
      \<lparr>transactions = Some [''h'']\<rparr>])
     = [''a'', ''b'', ''c'', ''d'', ''e'', ''f'', ''g'', ''h'']"
proof -
  let ?big = "\<lparr>transactions = Some [''a'', ''b'', ''c'', ''d'', ''e'', ''f'', ''g'']\<rparr>"
  let ?small = "\<lparr>transactions = Some [''h'']\<rparr>"
  have small: "has_array ?small \<and> bundle_size ?small \<le> MAX_TRANSACTIONS_PER_BUNDLE"
    by (simp add: has_array_def bundle_size_def MAX_TRANSACTIONS_PER_BUNDLE_def)
  have conc: "all_transactions (splitLargeBundles [?big, ?small]) = all_transactions [?big, ?small]"
    using splitLargeBundles_order_and_bound [of "[?big, ?small]"] by blast
  have every: "\<forall>pre b post. [?big, ?small] = pre @ b # post \<and> has_array b
          \<and> bundle_size b \<le> MAX_TRANSACTIONS_PER_BUNDLE \<longrightarrow>
        splitLargeBundles [?big, ?small] = splitLargeBundles pre @ b # splitLargeBundles post"
    using splitLargeBundles_order_and_bound [of "[?big, ?small]"] by blast
  have pass: "splitLargeBundles [?big, ?small] = splitLargeBundles [?big] @ ?small # splitLargeBundles []"
    using every [THEN spec, THEN spec, THEN spec, of "[?big]" ?small "[]"] small by simp
  have big: "splitLargeBundles [?big] =
      [\<lparr>transactions = Some [''a'', ''b'', ''c'', ''d'', ''e'']\<rparr>,
       \<lparr>transactions = Some [''f'', ''g'']\<rparr>]"
    by (simp add: splitLargeBundles_def chunk_loop.simps slice_def MAX_TRANSACTIONS_PER_BUNDLE_def)
  show ?thesis
    using conc pass big by (simp add: all_transactions_def splitLargeBundles_Nil)
qed

section \<open>Properties of the retry wrapper\<close>

lemma backoff_values:
  "backoff 1 = 1000" "backoff 2 = 2000" "backoff (Suc 0) = 1000" "backoff (Suc (Suc 0)) = 2000"
  by (simp_all add: backoff_def)

lemma retry_loop_waits:
  "retry_loop operation wait n a le ws s = (out, ws', s') \<Longrightarrow>
   \<exists>k. ws' = ws @ map backoff [a..<a + k] \<and> a + k \<le> max n a"
proof (induction operation wait n a le ws s rule: retry_loop.induct)
  case (1 operation wait maxRetries attempt lastError waits s)
  show ?case
  proof (cases "attempt \<le> maxRetries")
    case False
    with "1.prems" have "ws' = waits" by (simp add: retry_loop.simps)
    then have "ws' = waits @ map backoff [attempt..<attempt + 0] \<and> attempt + 0 \<le> max maxRetries attempt"
      by simp
    then show ?thesis by blast
  next
    case True
    obtain r s1 where op: "operation s = (r, s1)" by (cases "operation s")
    show ?thesis
    proof (cases r)
      case (Inr v)
      with op True "1.prems" have "ws' = waits" by (simp add: retry_loop.simps)
      then have "ws' = waits @ map backoff [attempt..<attempt + 0] \<and> attempt + 0 \<le> max maxRetries attempt"
        by simp
      then show ?thesis by blast
    next
      case (Inl e)
      show ?thesis
      proof (cases "attempt = maxRetries \<or> \<not> isNetworkError e")
        case stop: True
        with op Inl True "1.prems" have "ws' = waits"
          by (subst (asm) retry_loop.simps) auto
        then have "ws' = waits @ map backoff [attempt..<attempt + 0] \<and> attempt + 0 \<le> max maxRetries attempt"
          by simp
        then show ?thesis by blast
      next
        case go: False
        have rec: "retry_loop operation wait maxRetries (attempt + 1) (Some e)
                 (waits @ [backoff attempt]) (wait (backoff attempt) s1) = (out, ws', s')"
          using op Inl True go "1.prems" by (subst (asm) retry_loop.simps) auto
        from "1.IH" [OF True op [symmetric] Inl go rec]
        obtain k where k: "ws' = (waits @ [backoff attempt]) @ map backoff [attempt + 1..<attempt + 1 + k]"
          and le: "attempt + 1 + k \<le> max maxRetries (attempt + 1)"
          by blast
        have "[attempt..<attempt + (k + 1)] = attempt # [attempt + 1..<attempt + 1 + k]"
          by (simp add: upt_rec)
        then have "ws' = waits @ map backoff [attempt..<attempt + (k + 1)]"
          using k by simp
        moreover have "attempt + (k + 1) \<le> max maxRetries attempt"
          using le True go by auto
        ultimately show ?thesis by blast
      qed
    qed
  qed
qed

lemma executeWithRetry_waits:
  assumes "executeWithRetry operation wait n s = (out, ws, s')"
  shows "length ws \<le> n - 1
    \<and> (\<forall>k. 1 \<le> k \<and> k \<le> length ws \<longrightarrow> ws ! (k - 1) = min (1000 * 2 ^ (k - 1)) 5000)"
proof -
  from retry_loop_waits [OF assms [unfolded executeWithRetry_def]]
  obtain j where ws: "ws = map backoff [1..<1 + j]" and j: "1 + j \<le> max n 1"
    by auto
  have len: "length ws = j" using ws by simp
  have "ws ! (k - 1) = min (1000 * 2 ^ (k - 1)) 5000" if "1 \<le> k" "k \<le> length ws" for k
  proof -
    have "k - 1 < length [1..<1 + j]" using that len by simp
    then have "ws ! (k - 1) = backoff ([1..<1 + j] ! (k - 1))"
      unfolding ws by (rule nth_map)
    also have "[1..<1 + j] ! (k - 1) = 1 + (k - 1)"
      using that len by (intro nth_upt) simp
    also have "1 + (k - 1) = k" using that by simp
    finally show ?thesis by (simp add: backoff_def)
  qed
  moreover have "length ws \<le> n - 1" using len j by auto
  ultimately show ?thesis by blast
qed

lemma executeWithRetry_unrolled:
  "executeWithRetry operation wait 3 s =
     (case operation s of
        (Inr v, s1) \<Rightarrow> (Inr v, [], s1)
      | (Inl e1, s1) \<Rightarrow>
          if \<not> isNetworkError e1 then (Inl (Some e1), [], s1)
          else (case operation (wait 1000 s1) of
                  (Inr v, s2) \<Rightarrow> (Inr v, [1000], s2)
                | (Inl e2, s2) \<Rightarrow>
                    if \<not> isNetworkError e2 then (Inl (Some e2), [1000], s2)
                    else (case operation (wait 2000 s2) of
                            (Inr v, s3) \<Rightarrow> (Inr v, [1000, 2000], s3)
                          | (Inl e3, s3) \<Rightarrow> (Inl (Some e3), [1000, 2000], s3))))"
proof -
  obtain r1 s1 where o1: "operation s = (r1, s1)" by (cases "operation s")
  obtain r2 s2 where o2: "operation (wait 1000 s1) = (r2, s2)" by (cases "operation (wait 1000 s1)")
  obtain r3 s3 where o3: "operation (wait 2000 s2) = (r3, s3)" by (cases "operation (wait 2000 s2)")
  show ?thesis
    unfolding executeWithRetry_def
    using o1 o2 o3
    by (cases r1; cases r2; cases r3) (simp_all add: retry_loop.simps backoff_values)
qed

text \<open>
  Claim C9. \<open>executeWithRetry\<close> with \<open>maxRetries = 3\<close> retries only after a failure
  that \<open>isNetworkError\<close> classifies as a network condition; the delay awaited before
  attempt \<open>k + 1\<close> is \<open>min (1000 * 2 ^ (k - 1)) 5000\<close> ms (1000 ms, then 2000 ms); after
  the third failed attempt, or at the first failure that is not a network condition, the
  last error is thrown. For any \<open>maxRetries\<close>, at most \<open>maxRetries - 1\<close> delays are
  awaited, and the \<open>k\<close>-th of them is \<open>min (1000 * 2 ^ (k - 1)) 5000\<close>. The witness is
  the scenario of the specification: an operation that throws a timeout twice and then
  succeeds returns its value, after waits of 1000 ms and 2000 ms.
\<close>

theorem executeWithRetry_backoff:
  "executeWithRetry operation wait 3 s =
     (case operation s of
        (Inr v, s1) \<Rightarrow> (Inr v, [], s1)
      | (Inl e1, s1) \<Rightarrow>
          if \<not> isNetworkError e1 then (Inl (Some e1), [], s1)
          else (case operation (wait 1000 s1) of
                  (Inr v, s2) \<Rightarrow> (Inr v, [1000], s2)
                | (Inl e2, s2) \<Rightarrow>
                    if \<not> isNetworkError e2 then (Inl (Some e2), [1000], s2)
                    else (case operation (wait 2000 s2) of
                            (Inr v, s3) \<Rightarrow> (Inr v, [1000, 2000], s3)
                          | (Inl e3, s3) \<Rightarrow> (Inl (Some e3), [1000, 2000], s3))))
   \<and> (\<forall>n out ws s'. executeWithRetry operation wait n s = (out, ws, s') \<longrightarrow>
          length ws \<le> n - 1
          \<and> (\<forall>k. 1 \<le> k \<and> k \<le> length ws \<longrightarrow> ws ! (k - 1) = min (1000 * 2 ^ (k - 1)) 5000))"
  using executeWithRetry_unrolled [of operation wait s] executeWithRetry_waits [of operation wait _ s]
  by blast

theorem executeWithRetry_backoff_witness:
  "executeWithRetry
     (\<lambda>calls :: nat. (if calls < 2 then Inl (JsError (Some ''Request timeout''))
                       else Inr ''bundle-id'', calls + 1))
     (\<lambda>ms calls. calls) 3 0
   = (Inr ''bundle-id'', [1000, 2000], 3)"
  using executeWithRetry_backoff
    [of "\<lambda>calls :: nat. (if calls < 2 then Inl (JsError (Some ''Request timeout''))
                          else Inr ''bundle-id'', calls + 1)"
        "\<lambda>ms calls. calls" 0]
  by (simp add: isNetworkError_def)

section \<open>Properties of the scheduler\<close>

lemma stop_idem: "stop (stop m) = stop m"
  by (simp add: stop_def clearInterval_def split: option.split)

lemma idle_stop: "idle (stop m)"
  by (simp add: idle_def stop_def clearInterval_def split: option.split)

lemma stop_clears_interval:
  "intervalId (volumeBot m) = Some h \<Longrightarrow> h \<notin> handle ` set (timers (stop m))"
  by (auto simp: stop_def clearInterval_def)

lemma stop_idle: "idle m \<Longrightarrow> stop m = m"
  by (simp add: stop_def idle_def)

lemma session_started_eq:
  "session_started =
     \<lparr>volumeBot = \<lparr>config = Some example_config, stats = 0, intervalId = Some 2, isRunning = True,
                    lastUsedWalletIndex = - 1, lastTradeType = None\<rparr>,
      objects = [\<lparr>totalTrades = 0, totalVolume = 0, successfulTrades = 0, failedTrades = 0,
                  totalBuys = 0, totalSells = 0\<rparr>],
      timers = [\<lparr>handle = 1, kind = Timeout, action = ExecuteSmartTrade, delay_ms = 500\<rparr>,
                \<lparr>handle = 2, kind = Interval, action = RearmInterval, delay_ms = 5000\<rparr>,
                \<lparr>handle = 3, kind = Timeout, action = StopAfterDuration, delay_ms = 60000\<rparr>],
      next_handle = 4\<rparr>"
  by (simp add: session_started_def start_def new_VolumeBot_def startTradingLoop_def
      setTimeout_def setInterval_def add_timer_def getRandomInterval_def truthy_def example_config_def)

text \<open>
  Claim C4 (\<open>stop\<close> is idempotent and leaves the scheduler idle with zero pending
  timers, cancelling the warm-up timeout and the duration timeout too) does not hold of
  \<open>stop\<close>. The idempotence and the idle end state do hold (lemmas \<open>stop_idem\<close>,
  \<open>idle_stop\<close>, \<open>stop_idle\<close>), but \<open>stop\<close> clears only the timer whose handle is in
  \<open>intervalId\<close>: \<open>startTradingLoop\<close> does not keep the handles of its two timeouts.
  After \<open>start\<close> with a duration of one minute, \<open>stop\<close> leaves the warm-up timeout
  and the duration timeout pending, and a second \<open>stop\<close> does not remove them either.
  A second \<open>start\<close> then runs with the timeouts 1 and 3 of the first session still
  pending beside its own timers 4, 5 and 6; the callback of timeout 3 calls
  \<open>this.stop()\<close>, which ends the second session.
\<close>

theorem stop_leaves_timeouts_pending:
  "start example_config (Some ''http://localhost:3000'') 0 new_VolumeBot = Inr session_started
   \<and> isRunning (volumeBot session_started)
   \<and> timers (stop session_started) =
       [\<lparr>handle = 1, kind = Timeout, action = ExecuteSmartTrade, delay_ms = 500\<rparr>,
        \<lparr>handle = 3, kind = Timeout, action = StopAfterDuration, delay_ms = 60000\<rparr>]
   \<and> timers (stop (stop session_started)) \<noteq> []
   \<and> start example_config (Some ''http://localhost:3000'') 0 (stop session_started)
       = Inr session_restarted
   \<and> isRunning (volumeBot session_restarted)
   \<and> map (\<lambda>t. (handle t, action t)) (timers session_restarted) =
       [(1, ExecuteSmartTrade), (3, StopAfterDuration),
        (4, ExecuteSmartTrade), (5, RearmInterval), (6, StopAfterDuration)]
   \<and> \<not> isRunning (volumeBot (stop session_restarted))"
proof -
  have a: "start example_config (Some ''http://localhost:3000'') 0 new_VolumeBot = Inr session_started"
    by (simp add: session_started_def start_def new_VolumeBot_def)
  have b: "timers (stop session_started) =
       [\<lparr>handle = 1, kind = Timeout, action = ExecuteSmartTrade, delay_ms = 500\<rparr>,
        \<lparr>handle = 3, kind = Timeout, action = StopAfterDuration, delay_ms = 60000\<rparr>]"
    by (simp add: session_started_eq stop_def clearInterval_def)
  have c: "stop (stop session_started) = stop session_started"
    by (simp add: stop_def clearInterval_def split: option.split)
  have d: "start example_config (Some ''http://localhost:3000'') 0 (stop session_started)
       = Inr session_restarted"
    using idle_stop [of session_started] by (simp add: session_restarted_def start_def idle_def)
  have e: "isRunning (volumeBot session_restarted)
    \<and> map (\<lambda>t. (handle t, action t)) (timers session_restarted) =
       [(1, ExecuteSmartTrade), (3, StopAfterDuration),
        (4, ExecuteSmartTrade), (5, RearmInterval), (6, StopAfterDuration)]"
    by (simp add: session_restarted_def session_started_eq start_def stop_def clearInterval_def
        startTradingLoop_def setTimeout_def setInterval_def add_timer_def getRandomInterval_def
        truthy_def example_config_def Let_def)
  have f: "\<not> isRunning (volumeBot (stop session_restarted))"
    using idle_stop [of session_restarted] by (simp add: idle_def)
  show ?thesis using a b c d e f by (simp add: session_started_eq)
qed

text \<open>
  Claim C3 (every counter of \<open>VolumeStats\<close> is reset to zero when \<open>start\<close> begins a
  session) does not hold of \<open>start\<close>: it assigns \<open>config\<close> and \<open>isRunning\<close> and
  starts the trading loop, and leaves the statistics object as it is. On a scheduler that
  was stopped after a session with two trades, \<open>start\<close> succeeds and the counters of
  the earlier session are still there.
\<close>

theorem start_keeps_old_counters:
  "map_sum message (\<lambda>m. (isRunning (volumeBot m), objects m ! stats (volumeBot m)))
     (start example_config (Some ''http://localhost:3000'') 0 after_first_session)
   = Inr (True, \<lparr>totalTrades = 2, totalVolume = 1 / 20, successfulTrades = 1, failedTrades = 1,
                 totalBuys = 1, totalSells = 0\<rparr>)"
  by (simp add: start_def after_first_session_def startTradingLoop_def
      setTimeout_def setInterval_def add_timer_def getRandomInterval_def truthy_def example_config_def)

text \<open>In general, \<open>start\<close> touches neither the store nor the reference \<open>this.stats\<close>.\<close>

lemma start_keeps_objects:
  "start c url rnd m = Inr m' \<Longrightarrow> objects m' = objects m \<and> stats (volumeBot m') = stats (volumeBot m)"
  by (auto simp: start_def startTradingLoop_def setTimeout_def setInterval_def add_timer_def Let_def
      split: if_splits option.splits prod.splits)

text \<open>
  Claim C10. \<open>getStats\<close> returns a reference \<open>r\<close> to a new object, different from
  the scheduler's own statistics object, holding the same property values; the fields of
  the scheduler, the pending timers and every object that existed before are unchanged;
  and whatever a caller then assigns to the properties of the returned object, the
  scheduler's own statistics object keeps its values. (The hypothesis says that
  \<open>this.stats\<close> refers to an allocated object, as it does from the constructor on.)
\<close>

theorem getStats_fresh_copy:
  "stats (volumeBot m) < length (objects m) \<Longrightarrow>
   (case getStats m of
      (r, m') \<Rightarrow>
        volumeBot m' = volumeBot m \<and> timers m' = timers m \<and> next_handle m' = next_handle m
        \<and> take (length (objects m)) (objects m') = objects m
        \<and> r = length (objects m) \<and> r \<noteq> stats (volumeBot m) \<and> r < length (objects m')
        \<and> objects m' ! r = objects m ! stats (volumeBot m)
        \<and> (\<forall>f. volumeBot (mutate r f m') = volumeBot m
               \<and> objects (mutate r f m') ! stats (volumeBot m) = objects m ! stats (volumeBot m)
               \<and> take (length (objects m)) (objects (mutate r f m')) = objects m))"
  by (auto simp: getStats_def mutate_def nth_append)

theorem getStats_fresh_copy_witness:
  "getStats after_first_session =
     (1, after_first_session\<lparr>objects := objects after_first_session @ objects after_first_session\<rparr>)
   \<and> objects (mutate 1 (\<lambda>s. s\<lparr>totalTrades := 99\<rparr>) (snd (getStats after_first_session))) ! 0
     = \<lparr>totalTrades = 2, totalVolume = 1 / 20, successfulTrades = 1, failedTrades = 1,
        totalBuys = 1, totalSells = 0\<rparr>"
proof -
  have wf: "stats (volumeBot after_first_session) < length (objects after_first_session)"
    by (simp add: after_first_session_def)
  have g: "getStats after_first_session =
     (1, after_first_session\<lparr>objects := objects after_first_session @ objects after_first_session\<rparr>)"
    by (simp add: getStats_def after_first_session_def)
  show ?thesis
    using getStats_fresh_copy [OF wf] g
    by (simp add: after_first_session_def)
qed

section \<open>Properties of the dispatch orchestrator\<close>

lemma prepares_append [simp]: "prepares (xs @ ys) = prepares xs @ prepares ys"
  by (simp add: prepares_def)

lemma waits_at_append [simp]: "waits_at site (xs @ ys) = waits_at site xs @ waits_at site ys"
  by (simp add: waits_at_def)

lemma prepares_simps [simp]:
  "prepares [] = []" "prepares [Prepare a] = [a]" "prepares [Send txs] = []"
  "prepares [Wait site ms] = []"
  by (simp_all add: prepares_def)

lemma waits_at_simps [simp]:
  "waits_at site [] = []" "waits_at site [Prepare a] = []" "waits_at site [Send txs] = []"
  "waits_at site [Wait site' ms] = (if site' = site then [ms] else [])"
  by (simp_all add: waits_at_def)

lemma batch_trace_append [simp]: "batch_trace (xs @ ys) = batch_trace xs @ batch_trace ys"
  by (simp add: batch_trace_def)

lemma batch_trace_simps [simp]:
  "batch_trace [] = []" "batch_trace [Prepare a] = [Prepare a]" "batch_trace [Send txs] = []"
  "batch_trace [Wait site ms] = (if site = BetweenBatches then [Wait site ms] else [])"
  by (simp_all add: batch_trace_def)

lemma prepares_batch_trace: "prepares (batch_trace evs) = prepares evs"
  by (induction evs) (auto simp: batch_trace_def prepares_def split: event.splits)

lemma waits_batch_trace:
  "waits_at BetweenBatches (batch_trace evs) = waits_at BetweenBatches evs"
  by (induction evs) (auto simp: batch_trace_def waits_at_def split: event.splits)

lemma same_obs_prepares: "same_obs st st' \<Longrightarrow> prepares (events st') = prepares (events st)"
  using prepares_batch_trace [of "events st"] prepares_batch_trace [of "events st'"]
  by (simp add: same_obs_def)

lemma same_obs_waits:
  "same_obs st st' \<Longrightarrow>
   waits_at BetweenBatches (events st') = waits_at BetweenBatches (events st)"
  using waits_batch_trace [of "events st"] waits_batch_trace [of "events st'"]
  by (simp add: same_obs_def)

lemma same_obs_refl [simp]: "same_obs st st"
  by (simp add: same_obs_def)

lemma same_obs_trans: "same_obs a b \<Longrightarrow> same_obs b c \<Longrightarrow> same_obs a c"
  by (simp add: same_obs_def)

lemma same_obs_world [simp]: "same_obs st (st'\<lparr>world := w\<rparr>) = same_obs st st'"
  by (simp add: same_obs_def)

lemma same_obs_sleep: "site \<noteq> BetweenBatches \<Longrightarrow> same_obs st (sleep env site ms st)"
  by (simp add: same_obs_def sleep_def)

lemma same_obs_checkRateLimit: "same_obs st (checkRateLimit env st)"
  by (simp add: same_obs_def checkRateLimit_def sleep_def Let_def)

lemma same_obs_sendBundle: "sendBundle env txs st = (r, st') \<Longrightarrow> same_obs st st'"
  by (auto simp: same_obs_def sendBundle_def Let_def split: if_splits prod.splits sum.splits)

lemma same_obs_signing:
  "completeBundleSigning_with create_fee env b kps proto st = (r, st') \<Longrightarrow> same_obs st st'"
  by (auto simp: completeBundleSigning_with_def
      split: option.splits sum.splits if_splits prod.splits)


lemma same_obs_sign_send_loop:
  "sign_send_loop env kps proto bs results st = (r, results', st') \<Longrightarrow> same_obs st st'"
proof (induction bs arbitrary: results st)
  case Nil
  then show ?case by simp
next
  case (Cons b bs)
  obtain o0 st0 where cs: "completeBundleSigning env b kps proto st = (o0, st0)"
    by (cases "completeBundleSigning env b kps proto st")
  have s0: "same_obs st st0"
    using cs same_obs_signing unfolding completeBundleSigning_def by blast
  show ?case
  proof (cases o0)
    case (Inl e)
    with cs Cons.prems have "st' = st0" by simp
    with s0 show ?thesis by simp
  next
    case (Inr signedBundle)
    show ?thesis
    proof (cases "transactions signedBundle")
      case None
      with Inr cs Cons.prems have "st' = st0" by simp
      with s0 show ?thesis by simp
    next
      case (Some txs)
      show ?thesis
      proof (cases "length txs > 0")
        case False
        with Some Inr cs Cons.prems
        have "sign_send_loop env kps proto bs results st0 = (r, results', st')" by simp
        from same_obs_trans [OF s0 Cons.IH [OF this]] show ?thesis .
      next
        case True
        obtain o1 st1 where sb: "sendBundle env txs (checkRateLimit env st0) = (o1, st1)"
          by (cases "sendBundle env txs (checkRateLimit env st0)")
        have s1: "same_obs st st1"
          using same_obs_trans [OF s0 same_obs_trans [OF same_obs_checkRateLimit same_obs_sendBundle [OF sb]]] .
        show ?thesis
        proof (cases o1)
          case (Inl e)
          with Some True Inr cs sb Cons.prems have "st' = st1" by simp
          with s1 show ?thesis by simp
        next
          case inr1: (Inr v)
          with Some True Inr cs sb Cons.prems
          have "sign_send_loop env kps proto bs (results @ [v]) st1 = (r, results', st')" by simp
          from same_obs_trans [OF s1 Cons.IH [OF this]] show ?thesis .
        qed
      qed
    qed
  qed
qed


lemma prepare_events:
  "getPartiallyPreparedTransactions env addrs cfg st = (r, st') \<Longrightarrow>
   prepares (events st') = prepares (events st) @ [addrs]
   \<and> waits_at site (events st') = waits_at site (events st)
   \<and> batch_trace (events st') = batch_trace (events st) @ [Prepare addrs]"
  by (auto simp: getPartiallyPreparedTransactions_def Let_def
      split: if_splits prod.splits sum.splits)

lemma single_wallet_prepares:
  assumes "single_wallet env cfg d w is_last results st = (out, results', st')"
  shows "prepares (events st') = prepares (events st) @ [[address w]]"
proof -
  obtain o1 st1 where p: "getPartiallyPreparedTransactions env [address w] cfg st = (o1, st1)"
    by (cases "getPartiallyPreparedTransactions env [address w] cfg st")
  have p1: "prepares (events st1) = prepares (events st) @ [[address w]]"
    using prepare_events [OF p] by simp
  show ?thesis
  proof (cases o1)
    case (Inl e)
    with p assms have "st' = st1" by (simp add: single_wallet_def)
    with p1 show ?thesis by simp
  next
    case (Inr bundles)
    show ?thesis
    proof (cases "length bundles = 0")
      case True
      with Inr p assms have "st' = st1" by (simp add: single_wallet_def)
      with p1 show ?thesis by simp
    next
      case False
      show ?thesis
      proof (cases "keypair_fromSecretKey env (privateKey w)")
        case kl: (Inl e)
        with False Inr p assms have "st' = st1" by (simp add: single_wallet_def)
        with p1 show ?thesis by simp
      next
        case kr: (Inr kp)
        obtain o2 rs2 st2 where l:
          "sign_send_loop env [kp] (protocol cfg) bundles results st1 = (o2, rs2, st2)"
          by (cases "sign_send_loop env [kp] (protocol cfg) bundles results st1") auto
        have s2: "same_obs st1 st2" using same_obs_sign_send_loop [OF l] .
        have "same_obs st2 st'"
          using kr False Inr p l assms same_obs_sleep [of BetweenWallets st2 env d]
          by (cases o2) (auto simp: single_wallet_def split: if_splits)
        with s2 have "same_obs st1 st'" using same_obs_trans by blast
        with p1 show ?thesis using same_obs_prepares by fastforce
      qed
    qed
  qed
qed

lemma succeeded_Cons [simp]:
  "succeeded (out # outs) = (if out = Completed then 1 else 0) + succeeded outs"
  by (simp add: succeeded_def)

lemma failed_Cons [simp]:
  "failed (out # outs) = (if out = Completed then 0 else 1) + failed outs"
  by (simp add: failed_def)

lemma succeeded_Nil [simp]: "succeeded [] = 0"
  by (simp add: succeeded_def)

lemma failed_Nil [simp]: "failed [] = 0"
  by (simp add: failed_def)

lemma single_loop_counts:
  assumes "single_loop env cfg d ws (results, s, f) st = ((results', s', f'), st')"
  shows "s' = s + succeeded (single_outcomes env cfg d ws results st)
    \<and> f' = f + failed (single_outcomes env cfg d ws results st)
    \<and> length (single_outcomes env cfg d ws results st) = length ws
    \<and> prepares (events st') = prepares (events st) @ map (\<lambda>w. [address w]) ws"
  using assms
proof (induction ws arbitrary: results s f st)
  case Nil
  then show ?case by simp
next
  case (Cons w ws)
  obtain out rs1 st1 where u: "single_wallet env cfg d w (ws = []) results st = (out, rs1, st1)"
    by (cases "single_wallet env cfg d w (ws = []) results st") auto
  have p: "prepares (events st1) = prepares (events st) @ [[address w]]"
    using single_wallet_prepares [OF u] .
  show ?case
  proof (cases "out = Completed")
    case True
    with u Cons.prems
    have "single_loop env cfg d ws (rs1, s + 1, f) st1 = ((results', s', f'), st')" by simp
    from Cons.IH [OF this] p u True show ?thesis by simp
  next
    case False
    with u Cons.prems
    have "single_loop env cfg d ws (rs1, s, f + 1) st1 = ((results', s', f'), st')"
      by (cases out) simp_all
    from Cons.IH [OF this] p u False show ?thesis by simp
  qed
qed

lemma succeeded_pos: "(succeeded outs > 0) = (Completed \<in> set outs)"
  by (induction outs) auto

lemma single_wallet_completed_iff:
  "(fst (single_wallet env cfg d w is_last results st) = Completed) =
   (\<exists>bundles st1 kp results' st2.
      getPartiallyPreparedTransactions env [address w] cfg st = (Inr bundles, st1)
      \<and> bundles \<noteq> []
      \<and> keypair_fromSecretKey env (privateKey w) = Inr kp
      \<and> sign_send_loop env [kp] (protocol cfg) bundles results st1 = (None, results', st2))"
  by (auto simp: single_wallet_def split: prod.splits sum.splits option.splits if_splits)

lemma sign_send_loop_append:
  "sign_send_loop env kps proto (xs @ ys) rs s =
     (case sign_send_loop env kps proto xs rs s of
        (None, rs1, s1) \<Rightarrow> sign_send_loop env kps proto ys rs1 s1
      | (Some e, rs1, s1) \<Rightarrow> (Some e, rs1, s1))"
proof (induction xs arbitrary: rs s)
  case Nil
  show ?case by simp
next
  case (Cons b xs)
  show ?case
    using Cons.IH
    by (simp split: prod.splits sum.splits option.splits)
qed

lemma sign_send_loop_after:
  assumes "sign_send_loop env kps proto pre rs s = (None, rs1, s1)"
  shows "sign_send_loop env kps proto (pre @ post) rs s = sign_send_loop env kps proto post rs1 s1"
  using assms by (simp add: sign_send_loop_append)

text \<open>
  Claim C7. In single mode every wallet is processed, whatever happened to the wallets
  before it: there is one outcome and one preparation call per wallet, in order.
  \<open>success\<close> of the result is true if and only if some wallet succeeded, and the error
  string, with the counts of failed and of succeeded wallets, is set if and only if some
  wallet failed; every wallet that did not succeed counts as failed. What a wallet's
  outcome is: a throw of the preparation call or of the key decoding, or an error of the
  sign-and-send loop, makes it \<open>Threw\<close> (failed); an empty answer of the builder makes
  it \<open>NoTransactions\<close> (failed); otherwise it is \<open>Completed\<close> (succeeded), followed by
  the delay unless the wallet is the last. The sign-and-send loop ends with an error as
  soon as the signer or the relay client throws, at whichever bundle of the wallet that
  happens (the bundles \<open>pre\<close> before it having been sent without a throw), and it ends
  without one only when every bundle was signed and every non-empty signed bundle was
  sent.
\<close>

theorem executeBuySingleMode_partial_failures:
  assumes "executeBuySingleMode env wallets cfg st = (r, st')"
  shows "length (single_run_outcomes env wallets cfg st) = length wallets
    \<and> prepares (events st') = prepares (events st) @ map (\<lambda>w. [address w]) wallets
    \<and> success r = (Completed \<in> set (single_run_outcomes env wallets cfg st))
    \<and> error r =
        (if failed (single_run_outcomes env wallets cfg st) > 0
         then Some (show_nat (failed (single_run_outcomes env wallets cfg st)) @ '' wallets failed, ''
                    @ show_nat (succeeded (single_run_outcomes env wallets cfg st)) @ '' succeeded'')
         else None)
    \<and> (\<forall>d w is_last rs s.
          (fst (single_wallet env cfg d w is_last rs s) = Completed) =
          (\<exists>bundles s1 kp rs' s2.
             getPartiallyPreparedTransactions env [address w] cfg s = (Inr bundles, s1)
             \<and> bundles \<noteq> []
             \<and> keypair_fromSecretKey env (privateKey w) = Inr kp
             \<and> sign_send_loop env [kp] (protocol cfg) bundles rs s1 = (None, rs', s2)))
    \<and> (\<forall>d w is_last rs s e s1.
          getPartiallyPreparedTransactions env [address w] cfg s = (Inl e, s1) \<longrightarrow>
          single_wallet env cfg d w is_last rs s = (Threw e, rs, s1))
    \<and> (\<forall>d w is_last rs s s1.
          getPartiallyPreparedTransactions env [address w] cfg s = (Inr [], s1) \<longrightarrow>
          single_wallet env cfg d w is_last rs s = (NoTransactions, rs, s1))
    \<and> (\<forall>d w is_last rs s bundles s1 e.
          getPartiallyPreparedTransactions env [address w] cfg s = (Inr bundles, s1)
          \<and> bundles \<noteq> [] \<and> keypair_fromSecretKey env (privateKey w) = Inl e \<longrightarrow>
          single_wallet env cfg d w is_last rs s = (Threw e, rs, s1))
    \<and> (\<forall>d w is_last rs s bundles s1 kp e rs' s2.
          getPartiallyPreparedTransactions env [address w] cfg s = (Inr bundles, s1)
          \<and> bundles \<noteq> [] \<and> keypair_fromSecretKey env (privateKey w) = Inr kp
          \<and> sign_send_loop env [kp] (protocol cfg) bundles rs s1 = (Some e, rs', s2) \<longrightarrow>
          single_wallet env cfg d w is_last rs s = (Threw e, rs', s2))
    \<and> (\<forall>d w is_last rs s bundles s1 kp rs' s2.
          getPartiallyPreparedTransactions env [address w] cfg s = (Inr bundles, s1)
          \<and> bundles \<noteq> [] \<and> keypair_fromSecretKey env (privateKey w) = Inr kp
          \<and> sign_send_loop env [kp] (protocol cfg) bundles rs s1 = (None, rs', s2) \<longrightarrow>
          single_wallet env cfg d w is_last rs s =
            (Completed, rs', if is_last then s2 else sleep env BetweenWallets d s2))
    \<and> (\<forall>kps rs s. sign_send_loop env kps (protocol cfg) [] rs s = (None, rs, s))
    \<and> (\<forall>kps pre b post rs s rs1 s1 e s2.
          sign_send_loop env kps (protocol cfg) pre rs s = (None, rs1, s1)
          \<and> completeBundleSigning env b kps (protocol cfg) s1 = (Inl e, s2) \<longrightarrow>
          sign_send_loop env kps (protocol cfg) (pre @ b # post) rs s = (Some e, rs1, s2))
    \<and> (\<forall>kps pre b post rs s rs1 s1 signedBundle s2 txs e s3.
          sign_send_loop env kps (protocol cfg) pre rs s = (None, rs1, s1)
          \<and> completeBundleSigning env b kps (protocol cfg) s1 = (Inr signedBundle, s2)
          \<and> transactions signedBundle = Some txs \<and> txs \<noteq> []
          \<and> sendBundle env txs (checkRateLimit env s2) = (Inl e, s3) \<longrightarrow>
          sign_send_loop env kps (protocol cfg) (pre @ b # post) rs s = (Some e, rs1, s3))
    \<and> (\<forall>kps pre b rs s rs1 s1 signedBundle s2.
          sign_send_loop env kps (protocol cfg) pre rs s = (None, rs1, s1)
          \<and> completeBundleSigning env b kps (protocol cfg) s1 = (Inr signedBundle, s2)
          \<and> transactions signedBundle = Some [] \<longrightarrow>
          sign_send_loop env kps (protocol cfg) (pre @ [b]) rs s = (None, rs1, s2))
    \<and> (\<forall>kps pre b rs s rs1 s1 signedBundle s2 txs v s3.
          sign_send_loop env kps (protocol cfg) pre rs s = (None, rs1, s1)
          \<and> completeBundleSigning env b kps (protocol cfg) s1 = (Inr signedBundle, s2)
          \<and> transactions signedBundle = Some txs \<and> txs \<noteq> []
          \<and> sendBundle env txs (checkRateLimit env s2) = (Inr v, s3) \<longrightarrow>
          sign_send_loop env kps (protocol cfg) (pre @ [b]) rs s = (None, rs1 @ [v], s3))"
proof -
  let ?d = "or_default (singleDelay cfg) 200"
  obtain results s f where l: "single_loop env cfg ?d wallets ([], 0, 0) st = ((results, s, f), st')"
    and r: "r = \<lparr>success = s > 0, result = Some results,
                 error = (if f > 0 then Some (show_nat f @ '' wallets failed, ''
                                              @ show_nat s @ '' succeeded'') else None)\<rparr>"
    using assms by (auto simp: executeBuySingleMode_def split: prod.splits)
  note c = single_loop_counts [OF l]
  have c1: "success r = (Completed \<in> set (single_run_outcomes env wallets cfg st))"
    using c r succeeded_pos by (simp add: single_run_outcomes_def)
  have c2: "error r =
        (if failed (single_run_outcomes env wallets cfg st) > 0
         then Some (show_nat (failed (single_run_outcomes env wallets cfg st)) @ '' wallets failed, ''
                    @ show_nat (succeeded (single_run_outcomes env wallets cfg st)) @ '' succeeded'')
         else None)"
    using c r by (simp add: single_run_outcomes_def)
  have c3: "length (single_run_outcomes env wallets cfg st) = length wallets"
    and c4: "prepares (events st') = prepares (events st) @ map (\<lambda>w. [address w]) wallets"
    using c by (simp_all add: single_run_outcomes_def)
  have w1: "single_wallet env cfg d w is_last rs s = (Threw e, rs, s1)"
    if "getPartiallyPreparedTransactions env [address w] cfg s = (Inl e, s1)"
    for d w is_last rs s e s1
    using that by (simp add: single_wallet_def)
  have w2: "single_wallet env cfg d w is_last rs s = (NoTransactions, rs, s1)"
    if "getPartiallyPreparedTransactions env [address w] cfg s = (Inr [], s1)"
    for d w is_last rs s s1
    using that by (simp add: single_wallet_def)
  have w3: "single_wallet env cfg d w is_last rs s = (Threw e, rs, s1)"
    if "getPartiallyPreparedTransactions env [address w] cfg s = (Inr bundles, s1)
          \<and> bundles \<noteq> [] \<and> keypair_fromSecretKey env (privateKey w) = Inl e"
    for d w is_last rs s bundles s1 e
    using that by (simp add: single_wallet_def)
  have w4: "single_wallet env cfg d w is_last rs s = (Threw e, rs', s2)"
    if "getPartiallyPreparedTransactions env [address w] cfg s = (Inr bundles, s1)
          \<and> bundles \<noteq> [] \<and> keypair_fromSecretKey env (privateKey w) = Inr kp
          \<and> sign_send_loop env [kp] (protocol cfg) bundles rs s1 = (Some e, rs', s2)"
    for d w is_last rs s bundles s1 kp e rs' s2
    using that by (simp add: single_wallet_def)
  have w5: "single_wallet env cfg d w is_last rs s =
            (Completed, rs', if is_last then s2 else sleep env BetweenWallets d s2)"
    if "getPartiallyPreparedTransactions env [address w] cfg s = (Inr bundles, s1)
          \<and> bundles \<noteq> [] \<and> keypair_fromSecretKey env (privateKey w) = Inr kp
          \<and> sign_send_loop env [kp] (protocol cfg) bundles rs s1 = (None, rs', s2)"
    for d w is_last rs s bundles s1 kp rs' s2
    using that by (simp add: single_wallet_def)
  have l1: "sign_send_loop env kps (protocol cfg) (pre @ b # post) rs s = (Some e, rs1, s2)"
    if "sign_send_loop env kps (protocol cfg) pre rs s = (None, rs1, s1)
          \<and> completeBundleSigning env b kps (protocol cfg) s1 = (Inl e, s2)"
    for kps pre b post rs s rs1 s1 e s2
    using that sign_send_loop_after [of env kps "protocol cfg" pre rs s rs1 s1 "b # post"]
    by simp
  have l2: "sign_send_loop env kps (protocol cfg) (pre @ b # post) rs s = (Some e, rs1, s3)"
    if "sign_send_loop env kps (protocol cfg) pre rs s = (None, rs1, s1)
          \<and> completeBundleSigning env b kps (protocol cfg) s1 = (Inr signedBundle, s2)
          \<and> transactions signedBundle = Some txs \<and> txs \<noteq> []
          \<and> sendBundle env txs (checkRateLimit env s2) = (Inl e, s3)"
    for kps pre b post rs s rs1 s1 signedBundle s2 txs e s3
    using that sign_send_loop_after [of env kps "protocol cfg" pre rs s rs1 s1 "b # post"]
    by simp
  have l3: "sign_send_loop env kps (protocol cfg) (pre @ [b]) rs s = (None, rs1, s2)"
    if "sign_send_loop env kps (protocol cfg) pre rs s = (None, rs1, s1)
          \<and> completeBundleSigning env b kps (protocol cfg) s1 = (Inr signedBundle, s2)
          \<and> transactions signedBundle = Some []"
    for kps pre b rs s rs1 s1 signedBundle s2
    using that sign_send_loop_after [of env kps "protocol cfg" pre rs s rs1 s1 "[b]"]
    by simp
  have l4: "sign_send_loop env kps (protocol cfg) (pre @ [b]) rs s = (None, rs1 @ [v], s3)"
    if "sign_send_loop env kps (protocol cfg) pre rs s = (None, rs1, s1)
          \<and> completeBundleSigning env b kps (protocol cfg) s1 = (Inr signedBundle, s2)
          \<and> transactions signedBundle = Some txs \<and> txs \<noteq> []
          \<and> sendBundle env txs (checkRateLimit env s2) = (Inr v, s3)"
    for kps pre b rs s rs1 s1 signedBundle s2 txs v s3
    using that sign_send_loop_after [of env kps "protocol cfg" pre rs s rs1 s1 "[b]"]
    by simp
  show ?thesis
    apply (intro conjI allI impI)
    subgoal by (rule c3)
    subgoal by (rule c4)
    subgoal by (rule c1)
    subgoal by (rule c2)
    subgoal by (rule single_wallet_completed_iff)
    subgoal by (rule w1)
    subgoal by (rule w2)
    subgoal by (rule w3)
    subgoal by (rule w4)
    subgoal by (rule w5)
    subgoal by simp
    subgoal by (rule l1)
    subgoal by (rule l2)
    subgoal by (rule l3)
    subgoal by (rule l4)
    done
qed

theorem executeBuySingleMode_partial_failures_witness:
  "success (fst (executeBuySingleMode
      (scenario_env (\<lambda>n. if n = 1 then builder_unreachable else builder_returns [''tx1''])
         relay_accepts (Inr ''fee-tx''))
      [wallet_no 1, wallet_no 2, wallet_no 3] (buy_config ''raydium'' ''single'') initial_sys))
   \<and> error (fst (executeBuySingleMode
      (scenario_env (\<lambda>n. if n = 1 then builder_unreachable else builder_returns [''tx1''])
         relay_accepts (Inr ''fee-tx''))
      [wallet_no 1, wallet_no 2, wallet_no 3] (buy_config ''raydium'' ''single'') initial_sys))
     = Some ''1 wallets failed, 2 succeeded''
   \<and> prepares (events (snd (executeBuySingleMode
      (scenario_env (\<lambda>n. if n = 1 then builder_unreachable else builder_returns [''tx1''])
         relay_accepts (Inr ''fee-tx''))
      [wallet_no 1, wallet_no 2, wallet_no 3] (buy_config ''raydium'' ''single'') initial_sys)))
     = [[''wallet1''], [''wallet2''], [''wallet3'']]
   \<and> single_run_outcomes
        (relay_scenario_env
           (\<lambda>n. if n = 0 then builder_returns_bundles [[''tx1''], [''tx2'']]
                 else builder_returns [''tx3''])
           (\<lambda>txs. if txs = [''signed:tx2''] then relay_unreachable else relay_accepts))
        [wallet_no 1, wallet_no 2] (buy_config ''raydium'' ''single'') initial_sys
     = [Threw (JsError (Some ''Failed to fetch'')), Completed]
   \<and> sends (events (snd (executeBuySingleMode
        (relay_scenario_env
           (\<lambda>n. if n = 0 then builder_returns_bundles [[''tx1''], [''tx2'']]
                 else builder_returns [''tx3''])
           (\<lambda>txs. if txs = [''signed:tx2''] then relay_unreachable else relay_accepts))
        [wallet_no 1, wallet_no 2] (buy_config ''raydium'' ''single'') initial_sys)))
     = [[''signed:tx1''], [''signed:tx2''], [''signed:tx3'']]
   \<and> error (fst (executeBuySingleMode
        (relay_scenario_env
           (\<lambda>n. if n = 0 then builder_returns_bundles [[''tx1''], [''tx2'']]
                 else builder_returns [''tx3''])
           (\<lambda>txs. if txs = [''signed:tx2''] then relay_unreachable else relay_accepts))
        [wallet_no 1, wallet_no 2] (buy_config ''raydium'' ''single'') initial_sys))
     = Some ''1 wallets failed, 1 succeeded''"
proof -
  let ?env = "scenario_env (\<lambda>n. if n = 1 then builder_unreachable else builder_returns [''tx1''])
         relay_accepts (Inr ''fee-tx'')"
  let ?ws = "[wallet_no 1, wallet_no 2, wallet_no 3]"
  let ?cfg = "buy_config ''raydium'' ''single''"
  let ?run = "executeBuySingleMode ?env ?ws ?cfg initial_sys"
  let ?env2 = "relay_scenario_env
           (\<lambda>n. if n = 0 then builder_returns_bundles [[''tx1''], [''tx2'']]
                 else builder_returns [''tx3''])
           (\<lambda>txs. if txs = [''signed:tx2''] then relay_unreachable else relay_accepts)"
  let ?ws2 = "[wallet_no 1, wallet_no 2]"
  let ?run2 = "executeBuySingleMode ?env2 ?ws2 ?cfg initial_sys"
  have run: "?run = (fst ?run, snd ?run)" by simp
  have run2: "?run2 = (fst ?run2, snd ?run2)" by simp
  have outs: "single_run_outcomes ?env ?ws ?cfg initial_sys
      = [Completed, Threw (JsError (Some ''Failed to fetch'')), Completed]"
    by code_simp
  have outs2: "single_run_outcomes ?env2 ?ws2 ?cfg initial_sys
      = [Threw (JsError (Some ''Failed to fetch'')), Completed]"
    by code_simp
  have sends2: "sends (events (snd ?run2)) = [[''signed:tx1''], [''signed:tx2''], [''signed:tx3'']]"
    by code_simp
  have str: "show_nat (Suc 0) = ''1''" "show_nat (Suc (Suc 0)) = ''2''"
    by code_simp+
  have addrs: "map (\<lambda>w. [address w]) ?ws = [[''wallet1''], [''wallet2''], [''wallet3'']]"
    by code_simp
  have ev: "prepares (events initial_sys) = []"
    by code_simp
  from executeBuySingleMode_partial_failures [OF run]
  have "success (fst ?run) = (Completed \<in> set (single_run_outcomes ?env ?ws ?cfg initial_sys))"
    and "error (fst ?run) =
        (if failed (single_run_outcomes ?env ?ws ?cfg initial_sys) > 0
         then Some (show_nat (failed (single_run_outcomes ?env ?ws ?cfg initial_sys)) @ '' wallets failed, ''
                    @ show_nat (succeeded (single_run_outcomes ?env ?ws ?cfg initial_sys)) @ '' succeeded'')
         else None)"
    and "prepares (events (snd ?run)) = prepares (events initial_sys) @ map (\<lambda>w. [address w]) ?ws"
    by blast+
  then have first: "success (fst ?run)"
    "error (fst ?run) = Some ''1 wallets failed, 2 succeeded''"
    "prepares (events (snd ?run)) = [[''wallet1''], [''wallet2''], [''wallet3'']]"
    unfolding outs addrs ev using str by (simp_all add: failed_def succeeded_def)
  from executeBuySingleMode_partial_failures [OF run2]
  have "error (fst ?run2) =
        (if failed (single_run_outcomes ?env2 ?ws2 ?cfg initial_sys) > 0
         then Some (show_nat (failed (single_run_outcomes ?env2 ?ws2 ?cfg initial_sys)) @ '' wallets failed, ''
                    @ show_nat (succeeded (single_run_outcomes ?env2 ?ws2 ?cfg initial_sys)) @ '' succeeded'')
         else None)"
    by blast
  then have second: "error (fst ?run2) = Some ''1 wallets failed, 1 succeeded''"
    unfolding outs2 using str by (simp add: failed_def succeeded_def)
  show ?thesis
    using first second outs2 sends2 by simp
qed




lemma map_throwing_Inr_iff: "(map_throwing f xs = Inr ys) = (map f xs = map Inr ys)"
proof (induction xs arbitrary: ys)
  case Nil
  show ?case by auto
next
  case (Cons x xs)
  show ?case
  proof (cases "f x")
    case (Inl e)
    then show ?thesis by (cases ys) auto
  next
    case (Inr y)
    show ?thesis
    proof (cases "map_throwing f xs")
      case inl: (Inl e)
      have "map f xs \<noteq> map Inr zs" for zs
        using Cons.IH [of zs] inl by simp
      with Inr inl show ?thesis by (cases ys) auto
    next
      case inr: (Inr zs)
      with Inr Cons.IH show ?thesis by (cases ys) auto
    qed
  qed
qed

lemma map_throwing_Inl:
  "map f pre = map Inr ys \<Longrightarrow> f x = Inl e \<Longrightarrow> map_throwing f (pre @ x # post) = Inl e"
proof (induction pre arbitrary: ys)
  case Nil
  then show ?case by simp
next
  case (Cons p pre)
  then obtain y ys' where ys: "ys = y # ys'" "f p = Inr y" "map f pre = map Inr ys'"
    by (cases ys) auto
  with Cons.IH [OF ys(3) Cons.prems(2)] show ?case by simp
qed
















lemma createDeveloperBuyFeeTransaction_returns:
  "\<exists>v w'. createDeveloperBuyFeeTransaction env payer w = (Inr v, w')"
  by (cases "fee_transaction env payer w")
     (auto simp: createDeveloperBuyFeeTransaction_def split: sum.splits)

lemma fee_failure_main_path:
  assumes "fst (create_fee (hd kps) (world st)) = Inr None
           \<or> (\<exists>e. fst (create_fee (hd kps) (world st)) = Inl e)"
  shows "fst (completeBundleSigning_with create_fee env b kps proto st) =
     (case transactions b of
        None \<Rightarrow> Inr \<lparr>transactions = Some []\<rparr>
      | Some txs \<Rightarrow>
          (case map_throwing (sign_transaction env kps) txs of
             Inl e \<Rightarrow> Inl e
           | Inr signedTransactions \<Rightarrow> Inr \<lparr>transactions = Some signedTransactions\<rparr>))"
proof -
  obtain v w' where c: "create_fee (hd kps) (world st) = (v, w')"
    by (cases "create_fee (hd kps) (world st)")
  with assms have "v = Inr None \<or> (\<exists>e. v = Inl e)" by simp
  then show ?thesis
    using c
    by (auto simp: completeBundleSigning_with_def split: option.splits sum.splits)
qed

lemma no_fee_main_path:
  "proto \<noteq> ''pumpfun'' \<Longrightarrow> proto \<noteq> ''bonk'' \<Longrightarrow>
   fst (completeBundleSigning_with create_fee env b kps proto st) =
     (case transactions b of
        None \<Rightarrow> Inr \<lparr>transactions = Some []\<rparr>
      | Some txs \<Rightarrow>
          (case map_throwing (sign_transaction env kps) txs of
             Inl e \<Rightarrow> Inl e
           | Inr signedTransactions \<Rightarrow> Inr \<lparr>transactions = Some signedTransactions\<rparr>))"
  by (auto simp: completeBundleSigning_with_def split: option.splits sum.splits)

lemma remdups_drop_known: "x \<in> set zs \<Longrightarrow> remdups (ys @ x # zs) = remdups (ys @ zs)"
  by (induction ys) auto

lemma collect_signers_acc:
  "distinct acc \<Longrightarrow>
   collect_signers kps keys acc =
     rev (remdups (rev (acc @ List.map_filter (\<lambda>k. find (\<lambda>kp. publicKey kp = k) kps) keys)))"
proof (induction keys arbitrary: acc)
  case Nil
  then show ?case by (simp add: List.map_filter_simps distinct_remdups_id)
next
  case (Cons k keys)
  show ?case
  proof (cases "find (\<lambda>kp. publicKey kp = k) kps")
    case None
    with Cons show ?thesis by (simp add: List.map_filter_simps)
  next
    case (Some m)
    show ?thesis
    proof (cases "m \<in> set acc")
      case True
      then have "m \<in> set (rev acc)" by simp
      from remdups_drop_known [OF this]
      show ?thesis
        using Some True Cons.IH [OF Cons.prems] by (simp add: List.map_filter_simps)
    next
      case False
      then have "distinct (acc @ [m])" using Cons.prems by simp
      from Cons.IH [OF this] Some False show ?thesis
        by (simp add: List.map_filter_simps)
    qed
  qed
qed

lemma collect_signers_spec:
  "collect_signers kps keys [] =
     rev (remdups (rev (List.map_filter (\<lambda>k. find (\<lambda>kp. publicKey kp = k) kps) keys)))"
  using collect_signers_acc [of "[]" kps keys] by simp

lemma sign_transaction_primitives:
  "sign_transaction env kps tx =
     (case deserialize env (case bs58_decode env tx of
                              Inl e \<Rightarrow> base64_decode env tx
                            | Inr bytes \<Rightarrow> bytes) of
        Inl e \<Rightarrow> Inl e
      | Inr t \<Rightarrow>
          (case sign env t
                  (rev (remdups (rev (List.map_filter
                     (\<lambda>k. find (\<lambda>kp. publicKey kp = k) kps) (staticAccountKeys env t))))) of
             Inl e \<Rightarrow> Inl e
           | Inr signed \<Rightarrow> serialize_bs58 env signed))"
  by (simp add: sign_transaction_def collect_signers_spec Let_def split: sum.splits)

text \<open>
  Claim C8. When the creation of the fee transaction fails, the signer returns what the
  main signing path alone gives. This holds for every way the creating function can fail
  in \<open>completeBundleSigning\<close> (it returns \<open>null\<close>, or it throws and the \<open>catch\<close>
  takes over), for every protocol, and it is the result that a protocol without fee
  injection gets. What the main path gives: when every transaction of the bundle signs,
  the bundle of the signed transactions, one per transaction and in order; when the
  signing of a transaction throws, that error (of the first such transaction). Signing a
  transaction is: decode (base58, else base64), deserialize, sign with the signers, encode;
  the signers are, for each static account key in order, the first wallet keypair with
  that public key, each keypair once. For \<open>createDeveloperBuyFeeTransaction\<close> itself a
  failure inside it (the blockhash request or a library call throws) makes it return
  \<open>null\<close>; it never throws.
\<close>

theorem fee_failure_keeps_signed_bundle:
  "(fst (create_fee (hd kps) (world st)) = Inr None
      \<or> (\<exists>e. fst (create_fee (hd kps) (world st)) = Inl e) \<longrightarrow>
    fst (completeBundleSigning_with create_fee env b kps proto st) =
      (case transactions b of
         None \<Rightarrow> Inr \<lparr>transactions = Some []\<rparr>
       | Some txs \<Rightarrow>
           (case map_throwing (sign_transaction env kps) txs of
              Inl e \<Rightarrow> Inl e
            | Inr signedTransactions \<Rightarrow> Inr \<lparr>transactions = Some signedTransactions\<rparr>))
    \<and> fst (completeBundleSigning_with create_fee env b kps proto st) =
        fst (completeBundleSigning_with create_fee env b kps ''raydium'' st)
    \<and> (\<forall>txs signed.
          transactions b = Some txs \<and> map (sign_transaction env kps) txs = map Inr signed \<longrightarrow>
          fst (completeBundleSigning_with create_fee env b kps proto st) =
            Inr \<lparr>transactions = Some signed\<rparr>)
    \<and> (\<forall>pre tx post signed e.
          transactions b = Some (pre @ tx # post)
          \<and> map (sign_transaction env kps) pre = map Inr signed
          \<and> sign_transaction env kps tx = Inl e \<longrightarrow>
          fst (completeBundleSigning_with create_fee env b kps proto st) = Inl e))
   \<and> (\<forall>e w'. fee_transaction env (hd kps) (world st) = (Inl e, w') \<longrightarrow>
         createDeveloperBuyFeeTransaction env (hd kps) (world st) = (Inr None, w')
         \<and> fst (completeBundleSigning env b kps proto st) =
             (case transactions b of
                None \<Rightarrow> Inr \<lparr>transactions = Some []\<rparr>
              | Some txs \<Rightarrow>
                  (case map_throwing (sign_transaction env kps) txs of
                     Inl e \<Rightarrow> Inl e
                   | Inr signedTransactions \<Rightarrow> Inr \<lparr>transactions = Some signedTransactions\<rparr>))
         \<and> (\<forall>txs signed.
               transactions b = Some txs \<and> map (sign_transaction env kps) txs = map Inr signed \<longrightarrow>
               fst (completeBundleSigning env b kps proto st) = Inr \<lparr>transactions = Some signed\<rparr>)
         \<and> (\<forall>pre tx post signed e'.
               transactions b = Some (pre @ tx # post)
               \<and> map (sign_transaction env kps) pre = map Inr signed
               \<and> sign_transaction env kps tx = Inl e' \<longrightarrow>
               fst (completeBundleSigning env b kps proto st) = Inl e'))
   \<and> (\<forall>payer w. \<exists>v w'. createDeveloperBuyFeeTransaction env payer w = (Inr v, w'))
   \<and> (\<forall>tx. sign_transaction env kps tx =
         (case deserialize env (case bs58_decode env tx of
                                  Inl e \<Rightarrow> base64_decode env tx
                                | Inr bytes \<Rightarrow> bytes) of
            Inl e \<Rightarrow> Inl e
          | Inr t \<Rightarrow>
              (case sign env t
                      (rev (remdups (rev (List.map_filter
                         (\<lambda>k. find (\<lambda>kp. publicKey kp = k) kps) (staticAccountKeys env t))))) of
                 Inl e \<Rightarrow> Inl e
               | Inr signed \<Rightarrow> serialize_bs58 env signed)))"
proof -
  let ?main = "case transactions b of
         None \<Rightarrow> Inr \<lparr>transactions = Some []\<rparr>
       | Some txs \<Rightarrow>
           (case map_throwing (sign_transaction env kps) txs of
              Inl e \<Rightarrow> Inl e
            | Inr signedTransactions \<Rightarrow> Inr \<lparr>transactions = Some signedTransactions\<rparr>)"
  have all_signed: "?main = Inr \<lparr>transactions = Some signed\<rparr>"
    if "transactions b = Some txs" "map (sign_transaction env kps) txs = map Inr signed"
    for txs signed
    using that map_throwing_Inr_iff [of "sign_transaction env kps" txs signed] by simp
  have first_throw: "?main = Inl e"
    if "transactions b = Some (pre @ tx # post)"
      "map (sign_transaction env kps) pre = map Inr signed" "sign_transaction env kps tx = Inl e"
    for pre tx post signed e
    using that map_throwing_Inl [of "sign_transaction env kps" pre signed tx e post] by simp
  have a: "fst (completeBundleSigning_with create_fee env b kps proto st) = ?main
    \<and> fst (completeBundleSigning_with create_fee env b kps proto st) =
        fst (completeBundleSigning_with create_fee env b kps ''raydium'' st)"
    if "fst (create_fee (hd kps) (world st)) = Inr None
      \<or> (\<exists>e. fst (create_fee (hd kps) (world st)) = Inl e)"
    using that fee_failure_main_path [of create_fee kps st env b proto]
      no_fee_main_path [of "''raydium''" create_fee env b kps st]
    by simp
  have b: "createDeveloperBuyFeeTransaction env (hd kps) (world st) = (Inr None, w')
         \<and> fst (completeBundleSigning env b kps proto st) = ?main"
    if "fee_transaction env (hd kps) (world st) = (Inl e, w')" for e w'
  proof -
    have c: "createDeveloperBuyFeeTransaction env (hd kps) (world st) = (Inr None, w')"
      using that by (simp add: createDeveloperBuyFeeTransaction_def)
    then have "fst (createDeveloperBuyFeeTransaction env (hd kps) (world st)) = Inr None
      \<or> (\<exists>e. fst (createDeveloperBuyFeeTransaction env (hd kps) (world st)) = Inl e)"
      by simp
    with fee_failure_main_path [of "createDeveloperBuyFeeTransaction env" kps st env b proto] c
    show ?thesis
      by (simp add: completeBundleSigning_def)
  qed
  show ?thesis
  proof (intro conjI impI allI)
    assume f: "fst (create_fee (hd kps) (world st)) = Inr None
      \<or> (\<exists>e. fst (create_fee (hd kps) (world st)) = Inl e)"
    show "fst (completeBundleSigning_with create_fee env b kps proto st) = ?main"
      using a [OF f] by blast
    show "fst (completeBundleSigning_with create_fee env b kps proto st) =
        fst (completeBundleSigning_with create_fee env b kps ''raydium'' st)"
      using a [OF f] by blast
    show "fst (completeBundleSigning_with create_fee env b kps proto st) =
            Inr \<lparr>transactions = Some signed\<rparr>"
      if "transactions b = Some txs \<and> map (sign_transaction env kps) txs = map Inr signed"
      for txs signed
      using a [OF f] all_signed [of txs signed] that by simp
    show "fst (completeBundleSigning_with create_fee env b kps proto st) = Inl e"
      if "transactions b = Some (pre @ tx # post)
          \<and> map (sign_transaction env kps) pre = map Inr signed
          \<and> sign_transaction env kps tx = Inl e"
      for pre tx post signed e
      using a [OF f] first_throw [of pre tx post signed e] that by simp
  next
    fix e w'
    assume f: "fee_transaction env (hd kps) (world st) = (Inl e, w')"
    show "createDeveloperBuyFeeTransaction env (hd kps) (world st) = (Inr None, w')"
      using b [OF f] by blast
    show "fst (completeBundleSigning env b kps proto st) = ?main"
      using b [OF f] by blast
    show "fst (completeBundleSigning env b kps proto st) = Inr \<lparr>transactions = Some signed\<rparr>"
      if "transactions b = Some txs \<and> map (sign_transaction env kps) txs = map Inr signed"
      for txs signed
      using b [OF f] all_signed [of txs signed] that by simp
    show "fst (completeBundleSigning env b kps proto st) = Inl e'"
      if "transactions b = Some (pre @ tx # post)
               \<and> map (sign_transaction env kps) pre = map Inr signed
               \<and> sign_transaction env kps tx = Inl e'"
      for pre tx post signed e'
      using b [OF f] first_throw [of pre tx post signed e'] that by simp
  next
    fix payer w
    show "\<exists>v w'. createDeveloperBuyFeeTransaction env payer w = (Inr v, w')"
      using createDeveloperBuyFeeTransaction_returns [of env payer w] .
  next
    fix tx
    show "sign_transaction env kps tx =
         (case deserialize env (case bs58_decode env tx of
                                  Inl e \<Rightarrow> base64_decode env tx
                                | Inr bytes \<Rightarrow> bytes) of
            Inl e \<Rightarrow> Inl e
          | Inr t \<Rightarrow>
              (case sign env t
                      (rev (remdups (rev (List.map_filter
                         (\<lambda>k. find (\<lambda>kp. publicKey kp = k) kps) (staticAccountKeys env t))))) of
                 Inl e \<Rightarrow> Inl e
               | Inr signed \<Rightarrow> serialize_bs58 env signed))"
      using sign_transaction_primitives [of env kps tx] .
  qed
qed

theorem fee_failure_keeps_signed_bundle_witness:
  "fst (completeBundleSigning
     (signing_env (Inl (JsError (Some ''failed to get recent blockhash''))))
     \<lparr>transactions = Some [''tx1'', ''tx2'']\<rparr>
     [\<lparr>publicKey = ''pub:key1'', secretKey = ''key1''\<rparr>,
      \<lparr>publicKey = ''pub:key2'', secretKey = ''key2''\<rparr>] ''pumpfun'' initial_sys)
   = Inr \<lparr>transactions = Some [''signed[pub:key1;pub:key2;]:tx1'',
                                ''signed[pub:key1;pub:key2;]:tx2'']\<rparr>"
proof -
  let ?env = "signing_env (Inl (JsError (Some ''failed to get recent blockhash'')))"
  let ?kps = "[\<lparr>publicKey = ''pub:key1'', secretKey = ''key1''\<rparr>,
      \<lparr>publicKey = ''pub:key2'', secretKey = ''key2''\<rparr>]"
  let ?b = "\<lparr>transactions = Some [''tx1'', ''tx2'']\<rparr>"
  have fee: "fee_transaction ?env (hd ?kps) (world initial_sys)
      = (Inl (JsError (Some ''failed to get recent blockhash'')), 0)"
    by code_simp
  have main: "map (sign_transaction ?env ?kps) [''tx1'', ''tx2'']
      = map Inr [''signed[pub:key1;pub:key2;]:tx1'', ''signed[pub:key1;pub:key2;]:tx2'']"
    by code_simp
  from fee_failure_keeps_signed_bundle
         [of "createDeveloperBuyFeeTransaction ?env" ?kps initial_sys ?env ?b "''pumpfun''"]
  have "\<forall>e w'. fee_transaction ?env (hd ?kps) (world initial_sys) = (Inl e, w') \<longrightarrow>
          (\<forall>txs signed.
               transactions ?b = Some txs \<and> map (sign_transaction ?env ?kps) txs = map Inr signed \<longrightarrow>
               fst (completeBundleSigning ?env ?b ?kps ''pumpfun'' initial_sys)
                 = Inr \<lparr>transactions = Some signed\<rparr>)"
    by blast
  with fee have "\<forall>txs signed.
               transactions ?b = Some txs \<and> map (sign_transaction ?env ?kps) txs = map Inr signed \<longrightarrow>
               fst (completeBundleSigning ?env ?b ?kps ''pumpfun'' initial_sys)
                 = Inr \<lparr>transactions = Some signed\<rparr>"
    by blast
  from this [THEN spec, THEN spec,
      of "[''tx1'', ''tx2'']" "[''signed[pub:key1;pub:key2;]:tx1'', ''signed[pub:key1;pub:key2;]:tx2'']"]
    main
  show ?thesis by simp
qed

text \<open>
  Claim C1 (every bundle handed to \<open>sendBundle\<close> has at most five transactions) does not
  hold of the code. In batch mode the bundles are split before they are signed, and the
  signer then prepends the fee transaction: a prepared bundle of five transactions for
  the protocol \<open>pumpfun\<close> reaches \<open>sendBundle\<close> with six (the fee transaction first).
  Single mode does not call \<open>splitLargeBundles\<close> at all: a prepared bundle of six
  transactions is handed over with six.
\<close>

theorem relay_receives_six_transactions:
  "sends (events (snd (executeBuy
      (scenario_env (\<lambda>n. builder_returns [''tx1'', ''tx2'', ''tx3'', ''tx4'', ''tx5''])
         relay_accepts (Inr ''fee-tx''))
      [wallet_no 1] (buy_config ''pumpfun'' ''batch'') initial_sys)))
     = [[''fee-tx'', ''signed:tx1'', ''signed:tx2'', ''signed:tx3'', ''signed:tx4'', ''signed:tx5'']]
   \<and> sends (events (snd (executeBuy
      (scenario_env (\<lambda>n. builder_returns [''tx1'', ''tx2'', ''tx3'', ''tx4'', ''tx5'', ''tx6''])
         relay_accepts (Inr ''fee-tx''))
      [wallet_no 1] (buy_config ''raydium'' ''single'') initial_sys)))
     = [[''signed:tx1'', ''signed:tx2'', ''signed:tx3'', ''signed:tx4'', ''signed:tx5'', ''signed:tx6'']]
   \<and> MAX_TRANSACTIONS_PER_BUNDLE = 5"
  by code_simp

text \<open>
  Claim C2 (when the relay answers every submission with \<open>success: false\<close>, dispatch
  returns \<open>success = false\<close> and an error string reporting that all units failed) does
  not hold of the code: \<open>sendBundle\<close> returns \<open>data.result\<close> without looking at
  \<open>data.success\<close>, so a rejected submission does not throw and its wallet or batch
  counts as succeeded. With a relay that rejects everything, dispatch of two wallets in
  single mode, and of one wallet in batch mode, returns \<open>success = true\<close> and no error
  string.
\<close>

theorem relay_rejection_counts_as_success:
  "fst (executeBuy (scenario_env (\<lambda>n. builder_returns [''tx1'']) relay_rejects (Inr ''fee-tx''))
          [wallet_no 1, wallet_no 2] (buy_config ''raydium'' ''single'') initial_sys)
     = \<lparr>success = True, result = Some [None, None], error = None\<rparr>
   \<and> fst (executeBuy (scenario_env (\<lambda>n. builder_returns [''tx1'']) relay_rejects (Inr ''fee-tx''))
          [wallet_no 1] (buy_config ''raydium'' ''batch'') initial_sys)
     = \<lparr>success = True, result = Some [None], error = None\<rparr>
   \<and> fst (sendBundle (scenario_env (\<lambda>n. builder_returns [''tx1'']) relay_rejects (Inr ''fee-tx''))
          [''signed:tx1''] initial_sys)
     = Inr None"
  by code_simp

end
